theory Spec2Isabelle
  imports Main "HOL-Library.Multiset"
begin

section \<open>Data model of contracts/contracts/LandRegistry.sol\<close>

text \<open>
  Solidity \<open>uint256\<close> values are natural numbers; the only arithmetic the contract does
  on them that can leave the range is the increment of the two id counters, which in
  Solidity 0.8 reverts with a panic, and that revert is written out where it happens.
  An \<open>address\<close> is a natural number, \<open>address(0)\<close> being \<open>0\<close>.
\<close>

type_synonym address = nat

definition MAX_UINT256 :: nat where
  "MAX_UINT256 = 2 ^ 256 - 1"

text \<open>The two enums (lines 24-39); the prefixes keep their constructors apart.\<close>

datatype PropertyStatus =
  PS_Pending | PS_Approved | PS_Rejected | PS_ListedForSale | PS_SaleInProgress | PS_Sold

datatype TransactionStatus =
  TS_Pending | TS_Approved | TS_Rejected | TS_Completed | TS_Cancelled

text \<open>The structs (lines 42-68); field names carry the prefix of their struct.\<close>

record Property =
  p_id :: nat
  p_state :: string
  p_district :: string
  p_village :: string
  p_surveyNumber :: string
  p_owner :: address
  p_marketValue :: nat
  p_propertyId :: string
  p_ipfsHash :: string
  p_status :: PropertyStatus
  p_registeredAt :: nat
  p_lastUpdated :: nat
  p_isActive :: bool

record Transaction =
  t_id :: nat
  t_propertyId :: nat
  t_seller :: address
  t_buyer :: address
  t_price :: nat
  t_status :: TransactionStatus
  t_requestedAt :: nat
  t_completedAt :: nat
  t_ipfsHash :: string

text \<open>What a Solidity mapping holds at a key that was never written.\<close>

definition zero_Property :: Property where
  "zero_Property = \<lparr>p_id = 0, p_state = [], p_district = [], p_village = [],
     p_surveyNumber = [], p_owner = 0, p_marketValue = 0, p_propertyId = [],
     p_ipfsHash = [], p_status = PS_Pending, p_registeredAt = 0, p_lastUpdated = 0,
     p_isActive = False\<rparr>"

definition zero_Transaction :: Transaction where
  "zero_Transaction = \<lparr>t_id = 0, t_propertyId = 0, t_seller = 0, t_buyer = 0,
     t_price = 0, t_status = TS_Pending, t_requestedAt = 0, t_completedAt = 0,
     t_ipfsHash = []\<rparr>"

text \<open>
  The role identifiers (lines 14-17) are hashes of their names; \<open>DEFAULT_ADMIN_ROLE\<close> is
  the zero word of the access-control base contract, and any other 32-byte value a caller
  may pass to \<open>registerUser\<close> is \<open>OTHER_ROLE\<close>.
\<close>

datatype role =
  DEFAULT_ADMIN_ROLE | SUPERADMIN_ROLE | GOVERNMENT_ROLE | PROPERTY_OWNER_ROLE
  | LEGAL_PROFESSIONAL_ROLE | OTHER_ROLE nat

text \<open>The events (lines 80-120, and those of the base contracts).\<close>

datatype event =
  PropertyRegistered nat address string nat
  | PropertyStatusChanged nat PropertyStatus PropertyStatus
  | PropertyListedForSale nat address nat
  | PurchaseRequested nat nat address address nat
  | PurchaseApproved nat nat address
  | PurchaseRejected nat nat address
  | OwnershipTransferred nat address address nat
  | UserRegistered address string
  | DocumentsUpdated nat string
  | RoleGranted role address address
  | RoleRevoked role address address
  | Paused address
  | Unpaused address

text \<open>
  What a call leaves behind outside storage, in the order it happens: an emitted event,
  or value sent out of the contract by \<open>payable(a).call{value: v}("")\<close>.
\<close>

datatype effect = Emit event | Sent address nat

text \<open>
  Every revert of the contract is one constructor, named after its message.
  \<open>EnforcedPause\<close>, \<open>ExpectedPause\<close>, \<open>ReentrancyGuardReentrantCall\<close>,
  \<open>AccessControlUnauthorizedAccount\<close> and \<open>AccessControlBadConfirmation\<close> are the
  errors of the base contracts' modifiers; \<open>Panic_overflow\<close> is checked arithmetic.
\<close>

datatype error =
  EnforcedPause
  | ExpectedPause
  | ReentrancyGuardReentrantCall
  | AccessControlUnauthorizedAccount
  | AccessControlBadConfirmation
  | Panic_overflow
  | Only_property_owner_can_perform_this_action
  | Property_does_not_exist
  | Property_is_not_active
  | Transaction_does_not_exist
  | User_already_registered
  | Invalid_role
  | Invalid_address
  | State_is_required
  | District_is_required
  | Village_is_required
  | Survey_number_is_required
  | Invalid_owner_address
  | Market_value_must_be_greater_than_0
  | Property_is_not_pending_approval
  | Property_must_be_approved_before_listing
  | Price_must_be_greater_than_0
  | Property_is_not_listed_for_sale
  | Cannot_purchase_your_own_property
  | Insufficient_payment
  | Price_below_market_value
  | Only_seller_can_process_the_request
  | Transaction_already_processed
  | Refund_failed
  | Transaction_must_be_approved_first
  | Only_buyer_can_complete_the_purchase
  | Payment_transfer_failed
  | Property_is_not_for_sale
  | Only_property_owner_can_access_this_information

text \<open>
  The storage of the contract (lines 20-21 and 71-77), with the state of its three base
  contracts: the pause flag, the reentrancy latch and the role table. \<open>propertyIds\<close> and
  \<open>transactionIds\<close> are the counters \<open>_propertyIds\<close> and \<open>_transactionIds\<close>. \<open>balance\<close>
  is the value the contract holds, and \<open>trace\<close> the effects of all calls so far.
\<close>

record LandRegistry =
  paused :: bool
  entered :: bool
  roles :: "role \<Rightarrow> address \<Rightarrow> bool"
  propertyIds :: nat
  transactionIds :: nat
  properties :: "nat \<Rightarrow> Property"
  transactions :: "nat \<Rightarrow> Transaction"
  ownerProperties :: "address \<Rightarrow> nat list"
  propertyTransactions :: "nat \<Rightarrow> nat list"
  registeredUsers :: "address \<Rightarrow> bool"
  userRoles :: "address \<Rightarrow> string"
  superadminVillages :: "address \<Rightarrow> string list"
  balance :: nat
  trace :: "effect list"

text \<open>
  What a call sees of its environment: \<open>msg.sender\<close>, \<open>block.timestamp\<close>, and the
  accounts that refuse a payment sent to them (a recipient contract that reverts). Callers
  and recipients are accounts other than the contract itself, which calls none of its own
  entry points. \<open>msg.value\<close> is an argument of the payable entry points; the others are
  modelled for calls that carry no value.
\<close>

record env =
  msg_sender :: address
  block_timestamp :: nat
  refusing :: "address set"

section \<open>Modifiers\<close>

text \<open>A check is \<open>None\<close> when it passes and the revert otherwise; checks run in order.\<close>

definition require :: "bool \<Rightarrow> error \<Rightarrow> error option" where
  "require c err = (if c then None else Some err)"

fun first_failure :: "error option list \<Rightarrow> error option" where
  "first_failure [] = None"
| "first_failure (Some err # cs) = Some err"
| "first_failure (None # cs) = first_failure cs"

definition whenNotPaused :: "LandRegistry \<Rightarrow> error option" where
  "whenNotPaused s = require (\<not> paused s) EnforcedPause"

definition whenPaused :: "LandRegistry \<Rightarrow> error option" where
  "whenPaused s = require (paused s) ExpectedPause"

definition nonReentrant :: "LandRegistry \<Rightarrow> error option" where
  "nonReentrant s = require (\<not> entered s) ReentrancyGuardReentrantCall"

definition hasRole :: "role \<Rightarrow> address \<Rightarrow> LandRegistry \<Rightarrow> bool" where
  "hasRole r a s = roles s r a"

definition onlyRole :: "role \<Rightarrow> env \<Rightarrow> LandRegistry \<Rightarrow> error option" where
  "onlyRole r e s = require (hasRole r (msg_sender e) s) AccessControlUnauthorizedAccount"

definition onlyPropertyOwner :: "env \<Rightarrow> nat \<Rightarrow> LandRegistry \<Rightarrow> error option" where
  "onlyPropertyOwner e pid s =
     require (p_owner (properties s pid) = msg_sender e)
       Only_property_owner_can_perform_this_action"

definition validProperty :: "nat \<Rightarrow> LandRegistry \<Rightarrow> error option" where
  "validProperty pid s = first_failure
     [require (p_id (properties s pid) \<noteq> 0) Property_does_not_exist,
      require (p_isActive (properties s pid)) Property_is_not_active]"

definition validTransaction :: "nat \<Rightarrow> LandRegistry \<Rightarrow> error option" where
  "validTransaction tid s =
     require (t_id (transactions s tid) \<noteq> 0) Transaction_does_not_exist"

text \<open>Storage writes and logging shared by the entry points.\<close>

definition emit :: "event \<Rightarrow> LandRegistry \<Rightarrow> LandRegistry" where
  "emit ev s = s\<lparr>trace := trace s @ [Emit ev]\<rparr>"

definition set_property :: "nat \<Rightarrow> Property \<Rightarrow> LandRegistry \<Rightarrow> LandRegistry" where
  "set_property pid p s = s\<lparr>properties := (properties s)(pid := p)\<rparr>"

definition set_transaction :: "nat \<Rightarrow> Transaction \<Rightarrow> LandRegistry \<Rightarrow> LandRegistry" where
  "set_transaction tid t s = s\<lparr>transactions := (transactions s)(tid := t)\<rparr>"

text \<open>\<open>_grantRole\<close> and \<open>_revokeRole\<close> of the access-control base contract.\<close>

definition grantRole_internal :: "env \<Rightarrow> role \<Rightarrow> address \<Rightarrow> LandRegistry \<Rightarrow> LandRegistry" where
  "grantRole_internal e r a s =
     (if hasRole r a s then s
      else emit (RoleGranted r a (msg_sender e))
             (s\<lparr>roles := (roles s)(r := (roles s r)(a := True))\<rparr>))"

definition revokeRole_internal :: "env \<Rightarrow> role \<Rightarrow> address \<Rightarrow> LandRegistry \<Rightarrow> LandRegistry" where
  "revokeRole_internal e r a s =
     (if hasRole r a s
      then emit (RoleRevoked r a (msg_sender e))
             (s\<lparr>roles := (roles s)(r := (roles s r)(a := False))\<rparr>)
      else s)"

text \<open>
  The registration of an owner or buyer met for the first time (lines 231-236 and
  427-432).
\<close>

definition register_if_unknown :: "env \<Rightarrow> address \<Rightarrow> LandRegistry \<Rightarrow> LandRegistry" where
  "register_if_unknown e a s =
     (if registeredUsers s a then s
      else emit (UserRegistered a ''Property Owner'')
             (grantRole_internal e PROPERTY_OWNER_ROLE a
               (s\<lparr>registeredUsers := (registeredUsers s)(a := True),
                  userRoles := (userRoles s)(a := ''Property Owner'')\<rparr>)))"

section \<open>Entry points\<close>

text \<open>
  Every entry point is its checks (the modifiers in the order written, then the
  \<open>require\<close>s, in source order) and its effects; a call that fails a check reverts
  (\<open>Inl\<close>) and leaves storage as it was.
\<close>

text \<open>The constructor (lines 151-157); \<open>msg.sender\<close> is the deployer.\<close>

definition zero_LandRegistry :: LandRegistry where
  "zero_LandRegistry = \<lparr>paused = False, entered = False, roles = (\<lambda>r a. False),
     propertyIds = 0, transactionIds = 0, properties = (\<lambda>n. zero_Property),
     transactions = (\<lambda>n. zero_Transaction), ownerProperties = (\<lambda>a. []),
     propertyTransactions = (\<lambda>n. []), registeredUsers = (\<lambda>a. False),
     userRoles = (\<lambda>a. []), superadminVillages = (\<lambda>a. []), balance = 0, trace = []\<rparr>"

definition constructor :: "env \<Rightarrow> LandRegistry" where
  "constructor e =
     emit (UserRegistered (msg_sender e) ''Superadmin'')
       ((grantRole_internal e SUPERADMIN_ROLE (msg_sender e)
          (grantRole_internal e DEFAULT_ADMIN_ROLE (msg_sender e) zero_LandRegistry))
        \<lparr>registeredUsers := (\<lambda>a. False)(msg_sender e := True),
         userRoles := (\<lambda>a. [])(msg_sender e := ''Superadmin'')\<rparr>)"

text \<open>\<open>registerUser\<close> (lines 162-175).\<close>

definition registerUser_checks :: "env \<Rightarrow> address \<Rightarrow> role \<Rightarrow> LandRegistry \<Rightarrow> error option" where
  "registerUser_checks e user r s = first_failure
     [onlyRole SUPERADMIN_ROLE e s,
      require (\<not> registeredUsers s user) User_already_registered,
      require (r \<noteq> DEFAULT_ADMIN_ROLE) Invalid_role]"

definition registerUser_effects ::
  "env \<Rightarrow> address \<Rightarrow> role \<Rightarrow> string \<Rightarrow> LandRegistry \<Rightarrow> LandRegistry" where
  "registerUser_effects e user r roleName s =
     emit (UserRegistered user roleName)
       (grantRole_internal e r user
         (s\<lparr>registeredUsers := (registeredUsers s)(user := True),
            userRoles := (userRoles s)(user := roleName)\<rparr>))"

definition registerUser ::
  "env \<Rightarrow> address \<Rightarrow> role \<Rightarrow> string \<Rightarrow> LandRegistry \<Rightarrow> error + LandRegistry" where
  "registerUser e user r roleName s =
     (case registerUser_checks e user r s of
        Some err \<Rightarrow> Inl err
      | None \<Rightarrow> Inr (registerUser_effects e user r roleName s))"

text \<open>
  \<open>toString\<close> (lines 839-856): the decimal digits of a number, the last digit written
  at the end of the buffer first.
\<close>

function toString_loop :: "nat \<Rightarrow> string \<Rightarrow> string" where
  "toString_loop v buffer =
     (if v = 0 then buffer
      else toString_loop (v div 10) (char_of (48 + v mod 10) # buffer))"
  by pat_completeness auto
termination
  by (relation "measure (\<lambda>(v, buffer). v)") auto

definition toString :: "nat \<Rightarrow> string" where
  "toString v = (if v = 0 then ''0'' else toString_loop v [])"

text \<open>\<open>registerProperty\<close> (lines 180-241).\<close>

definition registerProperty_checks ::
  "string \<Rightarrow> string \<Rightarrow> string \<Rightarrow> string \<Rightarrow> address \<Rightarrow> nat \<Rightarrow> LandRegistry \<Rightarrow> error option" where
  "registerProperty_checks state district village surveyNumber owner marketValue s =
     first_failure
     [whenNotPaused s,
      require (length state > 0) State_is_required,
      require (length district > 0) District_is_required,
      require (length village > 0) Village_is_required,
      require (length surveyNumber > 0) Survey_number_is_required,
      require (owner \<noteq> 0) Invalid_owner_address,
      require (marketValue > 0) Market_value_must_be_greater_than_0,
      require (propertyIds s < MAX_UINT256) Panic_overflow]"

definition registerProperty_effects ::
  "env \<Rightarrow> string \<Rightarrow> string \<Rightarrow> string \<Rightarrow> string \<Rightarrow> address \<Rightarrow> nat \<Rightarrow> string
     \<Rightarrow> LandRegistry \<Rightarrow> LandRegistry" where
  "registerProperty_effects e state district village surveyNumber owner marketValue ipfsHash s =
     (let newPropertyId = propertyIds s + 1;
          uniquePropertyId = state @ ''-'' @ district @ ''-'' @ village @ ''-''
                             @ surveyNumber @ ''-'' @ toString newPropertyId;
          newProperty = \<lparr>p_id = newPropertyId, p_state = state, p_district = district,
             p_village = village, p_surveyNumber = surveyNumber, p_owner = owner,
             p_marketValue = marketValue, p_propertyId = uniquePropertyId,
             p_ipfsHash = ipfsHash, p_status = PS_Pending,
             p_registeredAt = block_timestamp e, p_lastUpdated = block_timestamp e,
             p_isActive = True\<rparr>
      in emit (PropertyRegistered newPropertyId owner uniquePropertyId marketValue)
           (register_if_unknown e owner
             (s\<lparr>propertyIds := newPropertyId,
                properties := (properties s)(newPropertyId := newProperty),
                ownerProperties :=
                  (ownerProperties s)(owner := ownerProperties s owner @ [newPropertyId])\<rparr>)))"

definition registerProperty ::
  "env \<Rightarrow> string \<Rightarrow> string \<Rightarrow> string \<Rightarrow> string \<Rightarrow> address \<Rightarrow> nat \<Rightarrow> string
     \<Rightarrow> LandRegistry \<Rightarrow> error + LandRegistry" where
  "registerProperty e state district village surveyNumber owner marketValue ipfsHash s =
     (case registerProperty_checks state district village surveyNumber owner marketValue s of
        Some err \<Rightarrow> Inl err
      | None \<Rightarrow> Inr (registerProperty_effects e state district village surveyNumber owner
                       marketValue ipfsHash s))"

text \<open>\<open>approveProperty\<close> (lines 246-268).\<close>

definition approveProperty_checks :: "env \<Rightarrow> nat \<Rightarrow> LandRegistry \<Rightarrow> error option" where
  "approveProperty_checks e pid s = first_failure
     [onlyRole SUPERADMIN_ROLE e s,
      validProperty pid s,
      require (p_status (properties s pid) = PS_Pending) Property_is_not_pending_approval]"

definition approveProperty_effects :: "env \<Rightarrow> nat \<Rightarrow> bool \<Rightarrow> LandRegistry \<Rightarrow> LandRegistry" where
  "approveProperty_effects e pid approve s =
     (let property = properties s pid;
          oldStatus = p_status property;
          property1 = (if approve then property\<lparr>p_status := PS_Approved\<rparr>
                       else property\<lparr>p_status := PS_Rejected, p_isActive := False\<rparr>);
          property2 = property1\<lparr>p_lastUpdated := block_timestamp e\<rparr>
      in emit (PropertyStatusChanged pid oldStatus (p_status property2))
           (set_property pid property2 s))"

definition approveProperty :: "env \<Rightarrow> nat \<Rightarrow> bool \<Rightarrow> LandRegistry \<Rightarrow> error + LandRegistry" where
  "approveProperty e pid approve s =
     (case approveProperty_checks e pid s of
        Some err \<Rightarrow> Inl err
      | None \<Rightarrow> Inr (approveProperty_effects e pid approve s))"

text \<open>
  \<open>listPropertyForSale\<close> (lines 273-293). The reentrancy latch is set while the body
  runs and released at its end; the body calls nothing outside the contract, so only the
  check at entry is visible.
\<close>

definition listPropertyForSale_checks :: "env \<Rightarrow> nat \<Rightarrow> nat \<Rightarrow> LandRegistry \<Rightarrow> error option" where
  "listPropertyForSale_checks e pid price s = first_failure
     [whenNotPaused s,
      nonReentrant s,
      onlyPropertyOwner e pid s,
      validProperty pid s,
      require (p_status (properties s pid) = PS_Approved)
        Property_must_be_approved_before_listing,
      require (price > 0) Price_must_be_greater_than_0]"

definition listPropertyForSale_effects :: "env \<Rightarrow> nat \<Rightarrow> nat \<Rightarrow> LandRegistry \<Rightarrow> LandRegistry" where
  "listPropertyForSale_effects e pid price s =
     (let property = properties s pid;
          oldStatus = p_status property
      in emit (PropertyListedForSale pid (msg_sender e) price)
           (emit (PropertyStatusChanged pid oldStatus PS_ListedForSale)
             (set_property pid
               (property\<lparr>p_status := PS_ListedForSale, p_lastUpdated := block_timestamp e\<rparr>) s)))"

definition listPropertyForSale :: "env \<Rightarrow> nat \<Rightarrow> nat \<Rightarrow> LandRegistry \<Rightarrow> error + LandRegistry" where
  "listPropertyForSale e pid price s =
     (case listPropertyForSale_checks e pid price s of
        Some err \<Rightarrow> Inl err
      | None \<Rightarrow> Inr (listPropertyForSale_effects e pid price s))"

text \<open>
  \<open>requestToPurchase\<close> (lines 298-344), payable: \<open>msg_value\<close> is what the caller sends
  with the call, and the contract keeps all of it.
\<close>

definition requestToPurchase_checks ::
  "env \<Rightarrow> nat \<Rightarrow> nat \<Rightarrow> nat \<Rightarrow> LandRegistry \<Rightarrow> error option" where
  "requestToPurchase_checks e msg_value pid price s = first_failure
     [whenNotPaused s,
      nonReentrant s,
      validProperty pid s,
      require (p_status (properties s pid) = PS_ListedForSale) Property_is_not_listed_for_sale,
      require (p_owner (properties s pid) \<noteq> msg_sender e) Cannot_purchase_your_own_property,
      require (msg_value \<ge> price) Insufficient_payment,
      require (price \<ge> p_marketValue (properties s pid)) Price_below_market_value,
      require (transactionIds s < MAX_UINT256) Panic_overflow]"

definition requestToPurchase_effects ::
  "env \<Rightarrow> nat \<Rightarrow> nat \<Rightarrow> nat \<Rightarrow> string \<Rightarrow> LandRegistry \<Rightarrow> LandRegistry" where
  "requestToPurchase_effects e msg_value pid price ipfsHash s =
     (let property = properties s pid;
          newTransactionId = transactionIds s + 1;
          newTransaction = \<lparr>t_id = newTransactionId, t_propertyId = pid,
             t_seller = p_owner property, t_buyer = msg_sender e, t_price = price,
             t_status = TS_Pending, t_requestedAt = block_timestamp e, t_completedAt = 0,
             t_ipfsHash = ipfsHash\<rparr>
      in emit (PurchaseRequested newTransactionId pid (msg_sender e) (p_owner property) price)
           (set_property pid
             (property\<lparr>p_status := PS_SaleInProgress, p_lastUpdated := block_timestamp e\<rparr>)
             (s\<lparr>balance := balance s + msg_value,
                transactionIds := newTransactionId,
                transactions := (transactions s)(newTransactionId := newTransaction),
                propertyTransactions := (propertyTransactions s)
                  (pid := propertyTransactions s pid @ [newTransactionId])\<rparr>)))"

definition requestToPurchase ::
  "env \<Rightarrow> nat \<Rightarrow> nat \<Rightarrow> nat \<Rightarrow> string \<Rightarrow> LandRegistry \<Rightarrow> error + LandRegistry" where
  "requestToPurchase e msg_value pid price ipfsHash s =
     (case requestToPurchase_checks e msg_value pid price s of
        Some err \<Rightarrow> Inl err
      | None \<Rightarrow> Inr (requestToPurchase_effects e msg_value pid price ipfsHash s))"

text \<open>
  \<open>payable(to).call{value: v}("")\<close>: the call fails when the contract holds less than
  \<open>v\<close> or the recipient refuses; otherwise the value has left the contract when the
  recipient's code runs.
\<close>

definition call_value :: "env \<Rightarrow> address \<Rightarrow> nat \<Rightarrow> LandRegistry \<Rightarrow> LandRegistry option" where
  "call_value e to v s =
     (if v \<le> balance s \<and> to \<notin> refusing e
      then Some (s\<lparr>balance := balance s - v, trace := trace s @ [Sent to v]\<rparr>)
      else None)"

text \<open>
  \<open>processPurchaseRequest\<close> (lines 349-384). The body runs with the reentrancy latch
  set. On rejection the statements it executes are, in this order: the two status writes
  (lines 370-371), the refund (lines 374-377), the event (line 379) and the two
  timestamps (lines 382-383).
\<close>

definition processPurchaseRequest_checks :: "env \<Rightarrow> nat \<Rightarrow> LandRegistry \<Rightarrow> error option" where
  "processPurchaseRequest_checks e tid s = first_failure
     [whenNotPaused s,
      nonReentrant s,
      validTransaction tid s,
      require (t_seller (transactions s tid) = msg_sender e)
        Only_seller_can_process_the_request,
      require (t_status (transactions s tid) = TS_Pending) Transaction_already_processed]"

definition processPurchaseRequest_approve :: "nat \<Rightarrow> LandRegistry \<Rightarrow> LandRegistry" where
  "processPurchaseRequest_approve tid s =
     (let transaction = transactions s tid
      in emit (PurchaseApproved tid (t_propertyId transaction) (t_buyer transaction))
           (set_transaction tid (transaction\<lparr>t_status := TS_Approved\<rparr>) s))"

definition processPurchaseRequest_reject :: "nat \<Rightarrow> LandRegistry \<Rightarrow> LandRegistry" where
  "processPurchaseRequest_reject tid s =
     (let transaction = transactions s tid;
          pid = t_propertyId transaction
      in set_property pid ((properties s pid)\<lparr>p_status := PS_ListedForSale\<rparr>)
           (set_transaction tid (transaction\<lparr>t_status := TS_Rejected\<rparr>) s))"

definition processPurchaseRequest_refund :: "env \<Rightarrow> nat \<Rightarrow> LandRegistry \<Rightarrow> LandRegistry option" where
  "processPurchaseRequest_refund e tid s =
     call_value e (t_buyer (transactions s tid)) (t_price (transactions s tid)) s"

definition processPurchaseRequest_stamp :: "env \<Rightarrow> nat \<Rightarrow> LandRegistry \<Rightarrow> LandRegistry" where
  "processPurchaseRequest_stamp e tid s =
     (let transaction = transactions s tid;
          pid = t_propertyId transaction
      in set_property pid ((properties s pid)\<lparr>p_lastUpdated := block_timestamp e\<rparr>)
           (set_transaction tid (transaction\<lparr>t_completedAt := block_timestamp e\<rparr>) s))"

definition processPurchaseRequest :: "env \<Rightarrow> nat \<Rightarrow> bool \<Rightarrow> LandRegistry \<Rightarrow> error + LandRegistry" where
  "processPurchaseRequest e tid approve s =
     (case processPurchaseRequest_checks e tid s of
        Some err \<Rightarrow> Inl err
      | None \<Rightarrow>
          (if approve
           then Inr ((processPurchaseRequest_stamp e tid
                       (processPurchaseRequest_approve tid (s\<lparr>entered := True\<rparr>)))
                     \<lparr>entered := False\<rparr>)
           else
             (case processPurchaseRequest_refund e tid
                     (processPurchaseRequest_reject tid (s\<lparr>entered := True\<rparr>)) of
                None \<Rightarrow> Inl Refund_failed
              | Some s2 \<Rightarrow>
                  Inr ((processPurchaseRequest_stamp e tid
                         (emit (PurchaseRejected tid (t_propertyId (transactions s2 tid))
                                  (t_buyer (transactions s2 tid))) s2))
                       \<lparr>entered := False\<rparr>))))"

text \<open>
  The storage the buyer's account finds when the refund reaches it: \<open>None\<close> when the
  call reverts before the refund or the refund itself fails.
\<close>

definition processPurchaseRequest_during_refund ::
  "env \<Rightarrow> nat \<Rightarrow> LandRegistry \<Rightarrow> LandRegistry option" where
  "processPurchaseRequest_during_refund e tid s =
     (case processPurchaseRequest_checks e tid s of
        Some err \<Rightarrow> None
      | None \<Rightarrow> processPurchaseRequest_refund e tid
                  (processPurchaseRequest_reject tid (s\<lparr>entered := True\<rparr>)))"

text \<open>
  The loop of lines 407-413: the first occurrence of the id is overwritten with the last
  element, and the last element is dropped.
\<close>

function remove_owned :: "nat \<Rightarrow> nat \<Rightarrow> nat list \<Rightarrow> nat list" where
  "remove_owned i pid oldOwnerProps =
     (if i < length oldOwnerProps
      then (if oldOwnerProps ! i = pid
            then butlast (oldOwnerProps[i := oldOwnerProps ! (length oldOwnerProps - 1)])
            else remove_owned (i + 1) pid oldOwnerProps)
      else oldOwnerProps)"
  by pat_completeness auto
termination
  by (relation "measure (\<lambda>(i, pid, oldOwnerProps). length oldOwnerProps - i)") auto

text \<open>
  \<open>completePurchase\<close> (lines 389-449). The statements run in this order: the removal
  from the old owner's list, the writes to the property, the push on the buyer's list and
  the registration of the buyer (lines 403-432); the payment to the seller (lines
  435-438); the transaction's status and completion time, and the event (lines 440-448).
\<close>

definition completePurchase_checks :: "env \<Rightarrow> nat \<Rightarrow> LandRegistry \<Rightarrow> error option" where
  "completePurchase_checks e tid s = first_failure
     [whenNotPaused s,
      nonReentrant s,
      validTransaction tid s,
      require (t_status (transactions s tid) = TS_Approved) Transaction_must_be_approved_first,
      require (t_buyer (transactions s tid) = msg_sender e)
        Only_buyer_can_complete_the_purchase]"

definition completePurchase_transfer :: "env \<Rightarrow> nat \<Rightarrow> LandRegistry \<Rightarrow> LandRegistry" where
  "completePurchase_transfer e tid s =
     (let transaction = transactions s tid;
          pid = t_propertyId transaction;
          property = properties s pid;
          oldOwner = p_owner property;
          s1 = s\<lparr>ownerProperties := (ownerProperties s)
                  (oldOwner := remove_owned 0 pid (ownerProperties s oldOwner))\<rparr>;
          s2 = set_property pid
                 (property\<lparr>p_owner := t_buyer transaction,
                    p_marketValue := t_price transaction,
                    p_status := PS_Approved,
                    p_lastUpdated := block_timestamp e\<rparr>) s1;
          s3 = s2\<lparr>ownerProperties := (ownerProperties s2)
                  (t_buyer transaction := ownerProperties s2 (t_buyer transaction) @ [pid])\<rparr>
      in register_if_unknown e (t_buyer transaction) s3)"

definition completePurchase_payment :: "env \<Rightarrow> nat \<Rightarrow> LandRegistry \<Rightarrow> LandRegistry option" where
  "completePurchase_payment e tid s =
     call_value e (t_seller (transactions s tid)) (t_price (transactions s tid)) s"

definition completePurchase_finish :: "env \<Rightarrow> nat \<Rightarrow> address \<Rightarrow> LandRegistry \<Rightarrow> LandRegistry" where
  "completePurchase_finish e tid oldOwner s =
     (let transaction = transactions s tid
      in emit (OwnershipTransferred (t_propertyId transaction) oldOwner
                 (t_buyer transaction) tid)
           (set_transaction tid
             (transaction\<lparr>t_status := TS_Completed, t_completedAt := block_timestamp e\<rparr>) s))"

definition completePurchase :: "env \<Rightarrow> nat \<Rightarrow> LandRegistry \<Rightarrow> error + LandRegistry" where
  "completePurchase e tid s =
     (case completePurchase_checks e tid s of
        Some err \<Rightarrow> Inl err
      | None \<Rightarrow>
          (case completePurchase_payment e tid
                  (completePurchase_transfer e tid (s\<lparr>entered := True\<rparr>)) of
             None \<Rightarrow> Inl Payment_transfer_failed
           | Some s2 \<Rightarrow>
               Inr ((completePurchase_finish e tid
                      (p_owner (properties s (t_propertyId (transactions s tid)))) s2)
                    \<lparr>entered := False\<rparr>)))"

text \<open>The storage the seller's account finds when the payment reaches it.\<close>

definition completePurchase_during_payment ::
  "env \<Rightarrow> nat \<Rightarrow> LandRegistry \<Rightarrow> LandRegistry option" where
  "completePurchase_during_payment e tid s =
     (case completePurchase_checks e tid s of
        Some err \<Rightarrow> None
      | None \<Rightarrow> completePurchase_payment e tid
                  (completePurchase_transfer e tid (s\<lparr>entered := True\<rparr>)))"

text \<open>\<open>updatePropertyDocuments\<close> (lines 454-462).\<close>

definition updatePropertyDocuments_checks :: "env \<Rightarrow> nat \<Rightarrow> LandRegistry \<Rightarrow> error option" where
  "updatePropertyDocuments_checks e pid s = first_failure
     [onlyPropertyOwner e pid s, validProperty pid s]"

definition updatePropertyDocuments_effects ::
  "env \<Rightarrow> nat \<Rightarrow> string \<Rightarrow> LandRegistry \<Rightarrow> LandRegistry" where
  "updatePropertyDocuments_effects e pid ipfsHash s =
     emit (DocumentsUpdated pid ipfsHash)
       (set_property pid
         ((properties s pid)\<lparr>p_ipfsHash := ipfsHash, p_lastUpdated := block_timestamp e\<rparr>) s)"

definition updatePropertyDocuments ::
  "env \<Rightarrow> nat \<Rightarrow> string \<Rightarrow> LandRegistry \<Rightarrow> error + LandRegistry" where
  "updatePropertyDocuments e pid ipfsHash s =
     (case updatePropertyDocuments_checks e pid s of
        Some err \<Rightarrow> Inl err
      | None \<Rightarrow> Inr (updatePropertyDocuments_effects e pid ipfsHash s))"

text \<open>\<open>removeFromSale\<close> (lines 467-483).\<close>

definition removeFromSale_checks :: "env \<Rightarrow> nat \<Rightarrow> LandRegistry \<Rightarrow> error option" where
  "removeFromSale_checks e pid s = first_failure
     [onlyPropertyOwner e pid s,
      validProperty pid s,
      require (p_status (properties s pid) = PS_ListedForSale
               \<or> p_status (properties s pid) = PS_SaleInProgress) Property_is_not_for_sale]"

definition removeFromSale_effects :: "env \<Rightarrow> nat \<Rightarrow> LandRegistry \<Rightarrow> LandRegistry" where
  "removeFromSale_effects e pid s =
     (let property = properties s pid;
          oldStatus = p_status property
      in emit (PropertyStatusChanged pid oldStatus PS_Approved)
           (set_property pid
             (property\<lparr>p_status := PS_Approved, p_lastUpdated := block_timestamp e\<rparr>) s))"

definition removeFromSale :: "env \<Rightarrow> nat \<Rightarrow> LandRegistry \<Rightarrow> error + LandRegistry" where
  "removeFromSale e pid s =
     (case removeFromSale_checks e pid s of
        Some err \<Rightarrow> Inl err
      | None \<Rightarrow> Inr (removeFromSale_effects e pid s))"

text \<open>\<open>addSuperAdmin\<close> (lines 538-556).\<close>

definition addSuperAdmin_checks :: "env \<Rightarrow> address \<Rightarrow> LandRegistry \<Rightarrow> error option" where
  "addSuperAdmin_checks e superadmin s = first_failure
     [onlyRole SUPERADMIN_ROLE e s,
      require (superadmin \<noteq> 0) Invalid_address,
      require (\<not> registeredUsers s superadmin) User_already_registered]"

definition addSuperAdmin_effects ::
  "env \<Rightarrow> address \<Rightarrow> string list \<Rightarrow> string \<Rightarrow> LandRegistry \<Rightarrow> LandRegistry" where
  "addSuperAdmin_effects e superadmin villages roleName s =
     (let s1 = grantRole_internal e SUPERADMIN_ROLE superadmin
                 (s\<lparr>registeredUsers := (registeredUsers s)(superadmin := True),
                    userRoles := (userRoles s)(superadmin := roleName)\<rparr>)
      in emit (UserRegistered superadmin roleName)
           (s1\<lparr>superadminVillages := (superadminVillages s1)
                 (superadmin := superadminVillages s1 superadmin @ villages)\<rparr>))"

definition addSuperAdmin ::
  "env \<Rightarrow> address \<Rightarrow> string list \<Rightarrow> string \<Rightarrow> LandRegistry \<Rightarrow> error + LandRegistry" where
  "addSuperAdmin e superadmin villages roleName s =
     (case addSuperAdmin_checks e superadmin s of
        Some err \<Rightarrow> Inl err
      | None \<Rightarrow> Inr (addSuperAdmin_effects e superadmin villages roleName s))"

text \<open>
  The four entry points of lines 640-820 repeat, statement for statement, the bodies and
  modifiers of the entry points they are named after.
\<close>

definition makeAvailable :: "env \<Rightarrow> nat \<Rightarrow> nat \<Rightarrow> LandRegistry \<Rightarrow> error + LandRegistry" where
  "makeAvailable e pid price s = listPropertyForSale e pid price s"

definition requestToLandOwner ::
  "env \<Rightarrow> nat \<Rightarrow> nat \<Rightarrow> nat \<Rightarrow> string \<Rightarrow> LandRegistry \<Rightarrow> error + LandRegistry" where
  "requestToLandOwner e msg_value pid price ipfsHash s =
     requestToPurchase e msg_value pid price ipfsHash s"

definition processRequest :: "env \<Rightarrow> nat \<Rightarrow> bool \<Rightarrow> LandRegistry \<Rightarrow> error + LandRegistry" where
  "processRequest e tid approve s = processPurchaseRequest e tid approve s"

definition buyProperty :: "env \<Rightarrow> nat \<Rightarrow> LandRegistry \<Rightarrow> error + LandRegistry" where
  "buyProperty e tid s = completePurchase e tid s"

text \<open>
  \<open>pause\<close> and \<open>unpause\<close> (lines 825-834); \<open>_pause\<close> and \<open>_unpause\<close> of the base
  contract carry \<open>whenNotPaused\<close> and \<open>whenPaused\<close>.
\<close>

definition pause :: "env \<Rightarrow> LandRegistry \<Rightarrow> error + LandRegistry" where
  "pause e s =
     (case first_failure [onlyRole SUPERADMIN_ROLE e s, whenNotPaused s] of
        Some err \<Rightarrow> Inl err
      | None \<Rightarrow> Inr (emit (Paused (msg_sender e)) (s\<lparr>paused := True\<rparr>)))"

definition unpause :: "env \<Rightarrow> LandRegistry \<Rightarrow> error + LandRegistry" where
  "unpause e s =
     (case first_failure [onlyRole SUPERADMIN_ROLE e s, whenPaused s] of
        Some err \<Rightarrow> Inl err
      | None \<Rightarrow> Inr (emit (Unpaused (msg_sender e)) (s\<lparr>paused := False\<rparr>)))"

text \<open>
  The public entry points inherited from the access-control base contract. The contract
  never sets a role's admin role, so every role is administered by \<open>DEFAULT_ADMIN_ROLE\<close>.
\<close>

definition grantRole :: "env \<Rightarrow> role \<Rightarrow> address \<Rightarrow> LandRegistry \<Rightarrow> error + LandRegistry" where
  "grantRole e r a s =
     (case onlyRole DEFAULT_ADMIN_ROLE e s of
        Some err \<Rightarrow> Inl err
      | None \<Rightarrow> Inr (grantRole_internal e r a s))"

definition revokeRole :: "env \<Rightarrow> role \<Rightarrow> address \<Rightarrow> LandRegistry \<Rightarrow> error + LandRegistry" where
  "revokeRole e r a s =
     (case onlyRole DEFAULT_ADMIN_ROLE e s of
        Some err \<Rightarrow> Inl err
      | None \<Rightarrow> Inr (revokeRole_internal e r a s))"

definition renounceRole :: "env \<Rightarrow> role \<Rightarrow> address \<Rightarrow> LandRegistry \<Rightarrow> error + LandRegistry" where
  "renounceRole e r callerConfirmation s =
     (case require (callerConfirmation = msg_sender e) AccessControlBadConfirmation of
        Some err \<Rightarrow> Inl err
      | None \<Rightarrow> Inr (revokeRole_internal e r callerConfirmation s))"

text \<open>\<open>receive\<close> (line 861) accepts any value sent to the contract.\<close>

definition receive :: "nat \<Rightarrow> LandRegistry \<Rightarrow> error + LandRegistry" where
  "receive msg_value s = Inr (s\<lparr>balance := balance s + msg_value\<rparr>)"

section \<open>Queries\<close>

text \<open>The view functions (lines 488-530 and 561-634); none of them writes.\<close>

definition getProperty :: "nat \<Rightarrow> LandRegistry \<Rightarrow> error + Property" where
  "getProperty pid s =
     (case require (p_id (properties s pid) \<noteq> 0) Property_does_not_exist of
        Some err \<Rightarrow> Inl err
      | None \<Rightarrow> Inr (properties s pid))"

definition getOwnerProperties :: "address \<Rightarrow> LandRegistry \<Rightarrow> nat list" where
  "getOwnerProperties owner s = ownerProperties s owner"

definition getTransaction :: "nat \<Rightarrow> LandRegistry \<Rightarrow> error + Transaction" where
  "getTransaction tid s =
     (case validTransaction tid s of
        Some err \<Rightarrow> Inl err
      | None \<Rightarrow> Inr (transactions s tid))"

definition getPropertyTransactions :: "nat \<Rightarrow> LandRegistry \<Rightarrow> nat list" where
  "getPropertyTransactions pid s = propertyTransactions s pid"

definition getTotalProperties :: "LandRegistry \<Rightarrow> nat" where
  "getTotalProperties s = propertyIds s"

definition getSuperadminVillages :: "address \<Rightarrow> LandRegistry \<Rightarrow> string list" where
  "getSuperadminVillages superadmin s = superadminVillages s superadmin"

text \<open>
  \<open>viewRequest\<close> (lines 570-594): the two loops count and then copy the pending
  transactions of the property, in the order of the list.
\<close>

definition viewRequest :: "nat \<Rightarrow> LandRegistry \<Rightarrow> error + nat list" where
  "viewRequest pid s =
     (case require (p_id (properties s pid) \<noteq> 0) Property_does_not_exist of
        Some err \<Rightarrow> Inl err
      | None \<Rightarrow> Inr (filter (\<lambda>tid. t_status (transactions s tid) = TS_Pending)
                       (propertyTransactions s pid)))"

definition landInfoOwner :: "env \<Rightarrow> nat \<Rightarrow> LandRegistry \<Rightarrow> error + Property \<times> nat list" where
  "landInfoOwner e pid s =
     (case first_failure
             [require (p_id (properties s pid) \<noteq> 0) Property_does_not_exist,
              require (p_owner (properties s pid) = msg_sender e)
                Only_property_owner_can_access_this_information] of
        Some err \<Rightarrow> Inl err
      | None \<Rightarrow>
          (case viewRequest pid s of
             Inl err \<Rightarrow> Inl err
           | Inr pendingRequests \<Rightarrow> Inr (properties s pid, pendingRequests)))"

definition landInfoUser :: "nat \<Rightarrow> LandRegistry \<Rightarrow> error + Property" where
  "landInfoUser pid s =
     (case validProperty pid s of
        Some err \<Rightarrow> Inl err
      | None \<Rightarrow> Inr (properties s pid))"

definition viewAssets :: "address \<Rightarrow> LandRegistry \<Rightarrow> nat list" where
  "viewAssets owner s = ownerProperties s owner"

section \<open>Calls and reachable states\<close>

text \<open>
  A call names an entry point that can write, with its arguments. A call that reverts
  leaves the state as it was; every call is made from outside, with the latch released.
\<close>

datatype call =
  RegisterUser address role string
  | RegisterProperty string string string string address nat string
  | ApproveProperty nat bool
  | ListPropertyForSale nat nat
  | RequestToPurchase nat nat nat string
  | ProcessPurchaseRequest nat bool
  | CompletePurchase nat
  | UpdatePropertyDocuments nat string
  | RemoveFromSale nat
  | AddSuperAdmin address "string list" string
  | MakeAvailable nat nat
  | RequestToLandOwner nat nat nat string
  | ProcessRequest nat bool
  | BuyProperty nat
  | Pause
  | Unpause
  | GrantRole role address
  | RevokeRole role address
  | RenounceRole role address
  | Receive nat

fun step :: "env \<Rightarrow> call \<Rightarrow> LandRegistry \<Rightarrow> error + LandRegistry" where
  "step e (RegisterUser user r roleName) s = registerUser e user r roleName s"
| "step e (RegisterProperty st di vi su owner mv ipfs) s =
     registerProperty e st di vi su owner mv ipfs s"
| "step e (ApproveProperty pid approve) s = approveProperty e pid approve s"
| "step e (ListPropertyForSale pid price) s = listPropertyForSale e pid price s"
| "step e (RequestToPurchase msg_value pid price ipfs) s =
     requestToPurchase e msg_value pid price ipfs s"
| "step e (ProcessPurchaseRequest tid approve) s = processPurchaseRequest e tid approve s"
| "step e (CompletePurchase tid) s = completePurchase e tid s"
| "step e (UpdatePropertyDocuments pid ipfs) s = updatePropertyDocuments e pid ipfs s"
| "step e (RemoveFromSale pid) s = removeFromSale e pid s"
| "step e (AddSuperAdmin a villages roleName) s = addSuperAdmin e a villages roleName s"
| "step e (MakeAvailable pid price) s = makeAvailable e pid price s"
| "step e (RequestToLandOwner msg_value pid price ipfs) s =
     requestToLandOwner e msg_value pid price ipfs s"
| "step e (ProcessRequest tid approve) s = processRequest e tid approve s"
| "step e (BuyProperty tid) s = buyProperty e tid s"
| "step e Pause s = pause e s"
| "step e Unpause s = unpause e s"
| "step e (GrantRole r a) s = grantRole e r a s"
| "step e (RevokeRole r a) s = revokeRole e r a s"
| "step e (RenounceRole r a) s = renounceRole e r a s"
| "step e (Receive msg_value) s = receive msg_value s"

definition apply_call :: "env \<times> call \<Rightarrow> LandRegistry \<Rightarrow> LandRegistry" where
  "apply_call ec s = (case step (fst ec) (snd ec) s of Inl err \<Rightarrow> s | Inr s' \<Rightarrow> s')"

fun run :: "(env \<times> call) list \<Rightarrow> LandRegistry \<Rightarrow> LandRegistry" where
  "run [] s = s"
| "run (ec # ecs) s = run ecs (apply_call ec s)"

inductive reachable :: "LandRegistry \<Rightarrow> bool" where
  deployed: "reachable (constructor e)"
| called: "reachable s \<Longrightarrow> step e c s = Inr s' \<Longrightarrow> reachable s'"

text \<open>A sequence of calls that stops at the first revert.\<close>

fun steps :: "(env \<times> call) list \<Rightarrow> LandRegistry \<Rightarrow> error + LandRegistry" where
  "steps [] s = Inr s"
| "steps (ec # ecs) s =
     (case step (fst ec) (snd ec) s of Inl err \<Rightarrow> Inl err | Inr s' \<Rightarrow> steps ecs s')"

section \<open>Concrete registries\<close>

text \<open>
  Account 1 deploys the contract, account 2 registers a parcel worth 100 and lists it at
  150, accounts 3 and 4 are buyers, account 5 is a government officer. Nobody refuses a
  payment.
\<close>

definition caller :: "address \<Rightarrow> nat \<Rightarrow> env" where
  "caller a t = \<lparr>msg_sender = a, block_timestamp = t, refusing = {}\<rparr>"

definition deployed_registry :: LandRegistry where
  "deployed_registry = constructor (caller 1 1)"

definition scenario_listed :: "(env \<times> call) list" where
  "scenario_listed =
     [(caller 2 10, RegisterProperty ''Goa'' ''North'' ''Assagao'' ''SUR-001'' 2 100 ''QmA''),
      (caller 1 20, ApproveProperty 1 True),
      (caller 2 30, ListPropertyForSale 1 150)]"

definition scenario_requested :: "(env \<times> call) list" where
  "scenario_requested = scenario_listed @ [(caller 3 40, RequestToPurchase 150 1 150 ''QmB'')]"

definition scenario_approved :: "(env \<times> call) list" where
  "scenario_approved = scenario_requested @ [(caller 2 50, ProcessPurchaseRequest 1 True)]"

definition scenario_completed :: "(env \<times> call) list" where
  "scenario_completed = scenario_approved @ [(caller 3 60, CompletePurchase 1)]"

definition scenario_overpaid :: "(env \<times> call) list" where
  "scenario_overpaid = scenario_listed @ [(caller 3 40, RequestToPurchase 200 1 150 ''QmB'')]"

definition scenario_paused :: "(env \<times> call) list" where
  "scenario_paused = scenario_listed @
     [(caller 4 32, RegisterProperty ''Goa'' ''South'' ''Betul'' ''SUR-002'' 4 80 ''QmC''),
      (caller 1 34, Pause)]"

definition scenario_relisted :: "(env \<times> call) list" where
  "scenario_relisted = scenario_requested @
     [(caller 2 50, RemoveFromSale 1),
      (caller 2 60, ListPropertyForSale 1 150)]"

definition scenario_second_request :: "(env \<times> call) list" where
  "scenario_second_request = scenario_relisted @
     [(caller 4 70, RequestToPurchase 150 1 150 ''QmD'')]"

definition scenario_bought_twice :: "(env \<times> call) list" where
  "scenario_bought_twice = scenario_approved @
     [(caller 2 52, RemoveFromSale 1),
      (caller 2 54, ListPropertyForSale 1 150),
      (caller 3 56, RequestToPurchase 150 1 150 ''QmD''),
      (caller 2 58, ProcessPurchaseRequest 2 True),
      (caller 3 60, CompletePurchase 1)]"

definition scenario_government :: "(env \<times> call) list" where
  "scenario_government =
     [(caller 1 5, RegisterUser 5 GOVERNMENT_ROLE ''Government Authority''),
      (caller 2 10, RegisterProperty ''Goa'' ''North'' ''Assagao'' ''SUR-001'' 2 100 ''QmA'')]"

definition scenario_withdrawn :: "(env \<times> call) list" where
  "scenario_withdrawn = scenario_approved @ [(caller 2 55, RemoveFromSale 1)]"

text \<open>
  The calls of a sale from registration to completion, for any callers, owner and texts:
  a parcel worth 100, listed and bought at 150 with 150 sent along.
\<close>

definition sale_calls ::
  "env \<Rightarrow> env \<Rightarrow> env \<Rightarrow> env \<Rightarrow> env \<Rightarrow> env \<Rightarrow> string \<Rightarrow> string \<Rightarrow> string \<Rightarrow> string
     \<Rightarrow> address \<Rightarrow> string \<Rightarrow> string \<Rightarrow> (env \<times> call) list" where
  "sale_calls e1 e2 e3 e4 e5 e6 st di vi su owner ipfs ipfs' =
     [(e1, RegisterProperty st di vi su owner 100 ipfs),
      (e2, ApproveProperty 1 True),
      (e3, ListPropertyForSale 1 150),
      (e4, RequestToPurchase 150 1 150 ipfs'),
      (e5, ProcessPurchaseRequest 1 True),
      (e6, CompletePurchase 1)]"

text \<open>The overpaid request, rejected by the seller, or approved and completed.\<close>

definition scenario_overpaid_rejected :: "(env \<times> call) list" where
  "scenario_overpaid_rejected =
     scenario_overpaid @ [(caller 2 50, ProcessPurchaseRequest 1 False)]"

definition scenario_overpaid_completed :: "(env \<times> call) list" where
  "scenario_overpaid_completed = scenario_overpaid @
     [(caller 2 50, ProcessPurchaseRequest 1 True),
      (caller 3 60, CompletePurchase 1)]"

text \<open>The value that has left the contract, read off the trace.\<close>

fun sent_amount :: "effect \<Rightarrow> nat" where
  "sent_amount (Sent a v) = v"
| "sent_amount (Emit ev) = 0"

definition released :: "LandRegistry \<Rightarrow> nat" where
  "released s = sum_list (map sent_amount (trace s))"

section \<open>Predicates on registries\<close>

text \<open>
  A transaction is open for a property when it exists, refers to the property and is
  Pending or Approved.
\<close>

definition open_for :: "LandRegistry \<Rightarrow> nat \<Rightarrow> nat \<Rightarrow> bool" where
  "open_for s pid tid \<longleftrightarrow>
     t_id (transactions s tid) \<noteq> 0 \<and> t_propertyId (transactions s tid) = pid
     \<and> (t_status (transactions s tid) = TS_Pending
        \<or> t_status (transactions s tid) = TS_Approved)"

text \<open>
  The call takes property \<open>p\<close> off sale while a purchase request on it is in progress.
\<close>

fun withdraws_sale_in_progress :: "nat \<Rightarrow> call \<Rightarrow> LandRegistry \<Rightarrow> bool" where
  "withdraws_sale_in_progress p (RemoveFromSale pid) s =
     (pid = p \<and> p_status (properties s pid) = PS_SaleInProgress)"
| "withdraws_sale_in_progress p c s = False"

text \<open>
  The states reached by calls none of which takes property \<open>p\<close> off sale in that way;
  what the calls do to other properties is not restricted.
\<close>

inductive reachable_keeping_sale :: "nat \<Rightarrow> LandRegistry \<Rightarrow> bool" for p where
  deployed_ks: "reachable_keeping_sale p (constructor e)"
| called_ks: "reachable_keeping_sale p s \<Longrightarrow> \<not> withdraws_sale_in_progress p c s
     \<Longrightarrow> step e c s = Inr s' \<Longrightarrow> reachable_keeping_sale p s'"

text \<open>
  Properties are numbered up to the counter, and a transaction refers to a property that
  exists.
\<close>

definition well_formed :: "LandRegistry \<Rightarrow> bool" where
  "well_formed s \<longleftrightarrow>
     (\<forall>p. p_id (properties s p) \<noteq> 0 \<longrightarrow> p \<le> propertyIds s)
     \<and> (\<forall>t. t_id (transactions s t) \<noteq> 0 \<longrightarrow>
            p_id (properties s (t_propertyId (transactions s t))) \<noteq> 0)"

text \<open>Every owner's list holds, once each, the properties whose owner it is.\<close>

definition index_exact :: "LandRegistry \<Rightarrow> bool" where
  "index_exact s \<longleftrightarrow>
     (\<forall>a. distinct (ownerProperties s a)
          \<and> set (ownerProperties s a)
              = {p. p_id (properties s p) \<noteq> 0 \<and> p_owner (properties s p) = a})"

text \<open>A transaction that is still Pending has no completion time.\<close>

definition pending_unstamped :: "LandRegistry \<Rightarrow> bool" where
  "pending_unstamped s \<longleftrightarrow>
     (\<forall>t. t_status (transactions s t) = TS_Pending \<longrightarrow> t_completedAt (transactions s t) = 0)"

text \<open>
  Property \<open>p\<close> has at most one open transaction, and has one only while its status is
  SaleInProgress.
\<close>

definition single_sale :: "nat \<Rightarrow> LandRegistry \<Rightarrow> bool" where
  "single_sale p s \<longleftrightarrow>
     (\<forall>t1 t2. open_for s p t1 \<and> open_for s p t2 \<longrightarrow> t1 = t2)
     \<and> (\<forall>t. open_for s p t \<longrightarrow> p_status (properties s p) = PS_SaleInProgress)"

text \<open>
  No call of the sequence takes property \<open>p\<close> off sale while a request on it is in
  progress.
\<close>

fun keeps_sale :: "nat \<Rightarrow> (env \<times> call) list \<Rightarrow> LandRegistry \<Rightarrow> bool" where
  "keeps_sale p [] s = True"
| "keeps_sale p (ec # ecs) s =
     (\<not> withdraws_sale_in_progress p (snd ec) s \<and> keeps_sale p ecs (apply_call ec s))"

text \<open>
  Two parcels: parcel 1 is requested by account 3; account 4 registers parcel 2, which is
  approved, listed at 90 and requested by account 3 as well; then the owner of parcel 1
  takes it off sale while its request is pending.
\<close>

definition scenario_two_parcels :: "(env \<times> call) list" where
  "scenario_two_parcels = scenario_requested @
     [(caller 4 42, RegisterProperty ''Goa'' ''South'' ''Betul'' ''SUR-002'' 4 80 ''QmC''),
      (caller 1 44, ApproveProperty 2 True),
      (caller 4 46, ListPropertyForSale 2 90),
      (caller 3 48, RequestToPurchase 90 2 90 ''QmD''),
      (caller 2 50, RemoveFromSale 1)]"

text \<open>The buyer completes at time 60, and the seller, account 2, refuses the payment.\<close>

definition buyer_refused :: env where
  "buyer_refused = \<lparr>msg_sender = 3, block_timestamp = 60, refusing = {2}\<rparr>"

text \<open>
  What the contract owes on a transaction: its price while it is open, paid back to the
  buyer on rejection or out to the seller on completion. The contract is funded when it
  holds at least what it owes on all transactions, transactions are numbered up to their
  counter, and the latch is released.
\<close>

definition due :: "LandRegistry \<Rightarrow> nat \<Rightarrow> nat" where
  "due s t =
     (if t_id (transactions s t) \<noteq> 0
         \<and> (t_status (transactions s t) = TS_Pending
            \<or> t_status (transactions s t) = TS_Approved)
      then t_price (transactions s t) else 0)"

definition escrow_owed :: "LandRegistry \<Rightarrow> nat" where
  "escrow_owed s = sum (due s) {..transactionIds s}"

definition funded :: "LandRegistry \<Rightarrow> bool" where
  "funded s \<longleftrightarrow>
     escrow_owed s \<le> balance s
     \<and> (\<forall>t. t_id (transactions s t) \<noteq> 0 \<longrightarrow> t \<le> transactionIds s)
     \<and> \<not> entered s"

section \<open>Unfolding and frame lemmas\<close>

declare remove_owned.simps [simp del] toString_loop.simps [simp del]

lemmas check_defs = require_def whenNotPaused_def whenPaused_def nonReentrant_def hasRole_def
  onlyRole_def onlyPropertyOwner_def validProperty_def validTransaction_def

lemmas write_defs = emit_def set_property_def set_transaction_def grantRole_internal_def
  revokeRole_internal_def register_if_unknown_def

lemmas scenario_defs = scenario_listed_def scenario_requested_def scenario_approved_def
  scenario_completed_def scenario_overpaid_def scenario_paused_def scenario_relisted_def
  scenario_second_request_def scenario_bought_twice_def scenario_government_def
  scenario_withdrawn_def scenario_two_parcels_def buyer_refused_def
  scenario_overpaid_rejected_def scenario_overpaid_completed_def
  deployed_registry_def caller_def

lemma emit_fields [simp]:
  "paused (emit ev s) = paused s"
  "entered (emit ev s) = entered s"
  "roles (emit ev s) = roles s"
  "propertyIds (emit ev s) = propertyIds s"
  "transactionIds (emit ev s) = transactionIds s"
  "properties (emit ev s) = properties s"
  "transactions (emit ev s) = transactions s"
  "ownerProperties (emit ev s) = ownerProperties s"
  "propertyTransactions (emit ev s) = propertyTransactions s"
  "registeredUsers (emit ev s) = registeredUsers s"
  "userRoles (emit ev s) = userRoles s"
  "superadminVillages (emit ev s) = superadminVillages s"
  "balance (emit ev s) = balance s"
  "trace (emit ev s) = trace s @ [Emit ev]"
  by (simp_all add: emit_def)

lemma set_property_fields [simp]:
  "paused (set_property pid p s) = paused s"
  "entered (set_property pid p s) = entered s"
  "roles (set_property pid p s) = roles s"
  "propertyIds (set_property pid p s) = propertyIds s"
  "transactionIds (set_property pid p s) = transactionIds s"
  "properties (set_property pid p s) = (properties s)(pid := p)"
  "transactions (set_property pid p s) = transactions s"
  "ownerProperties (set_property pid p s) = ownerProperties s"
  "propertyTransactions (set_property pid p s) = propertyTransactions s"
  "registeredUsers (set_property pid p s) = registeredUsers s"
  "userRoles (set_property pid p s) = userRoles s"
  "superadminVillages (set_property pid p s) = superadminVillages s"
  "balance (set_property pid p s) = balance s"
  "trace (set_property pid p s) = trace s"
  by (simp_all add: set_property_def)

lemma set_transaction_fields [simp]:
  "paused (set_transaction tid t s) = paused s"
  "entered (set_transaction tid t s) = entered s"
  "roles (set_transaction tid t s) = roles s"
  "propertyIds (set_transaction tid t s) = propertyIds s"
  "transactionIds (set_transaction tid t s) = transactionIds s"
  "properties (set_transaction tid t s) = properties s"
  "transactions (set_transaction tid t s) = (transactions s)(tid := t)"
  "ownerProperties (set_transaction tid t s) = ownerProperties s"
  "propertyTransactions (set_transaction tid t s) = propertyTransactions s"
  "registeredUsers (set_transaction tid t s) = registeredUsers s"
  "userRoles (set_transaction tid t s) = userRoles s"
  "superadminVillages (set_transaction tid t s) = superadminVillages s"
  "balance (set_transaction tid t s) = balance s"
  "trace (set_transaction tid t s) = trace s"
  by (simp_all add: set_transaction_def)

lemma grantRole_internal_fields [simp]:
  "paused (grantRole_internal e r a s) = paused s"
  "entered (grantRole_internal e r a s) = entered s"
  "roles (grantRole_internal e r a s) = (roles s)(r := (roles s r)(a := True))"
  "propertyIds (grantRole_internal e r a s) = propertyIds s"
  "transactionIds (grantRole_internal e r a s) = transactionIds s"
  "properties (grantRole_internal e r a s) = properties s"
  "transactions (grantRole_internal e r a s) = transactions s"
  "ownerProperties (grantRole_internal e r a s) = ownerProperties s"
  "propertyTransactions (grantRole_internal e r a s) = propertyTransactions s"
  "registeredUsers (grantRole_internal e r a s) = registeredUsers s"
  "userRoles (grantRole_internal e r a s) = userRoles s"
  "superadminVillages (grantRole_internal e r a s) = superadminVillages s"
  "balance (grantRole_internal e r a s) = balance s"
  by (simp_all add: grantRole_internal_def hasRole_def fun_upd_idem)

lemma revokeRole_internal_fields [simp]:
  "paused (revokeRole_internal e r a s) = paused s"
  "entered (revokeRole_internal e r a s) = entered s"
  "roles (revokeRole_internal e r a s) = (roles s)(r := (roles s r)(a := False))"
  "propertyIds (revokeRole_internal e r a s) = propertyIds s"
  "transactionIds (revokeRole_internal e r a s) = transactionIds s"
  "properties (revokeRole_internal e r a s) = properties s"
  "transactions (revokeRole_internal e r a s) = transactions s"
  "ownerProperties (revokeRole_internal e r a s) = ownerProperties s"
  "propertyTransactions (revokeRole_internal e r a s) = propertyTransactions s"
  "registeredUsers (revokeRole_internal e r a s) = registeredUsers s"
  "userRoles (revokeRole_internal e r a s) = userRoles s"
  "superadminVillages (revokeRole_internal e r a s) = superadminVillages s"
  "balance (revokeRole_internal e r a s) = balance s"
  by (simp_all add: revokeRole_internal_def hasRole_def fun_upd_idem)

lemma register_if_unknown_fields [simp]:
  "paused (register_if_unknown e a s) = paused s"
  "entered (register_if_unknown e a s) = entered s"
  "propertyIds (register_if_unknown e a s) = propertyIds s"
  "transactionIds (register_if_unknown e a s) = transactionIds s"
  "properties (register_if_unknown e a s) = properties s"
  "transactions (register_if_unknown e a s) = transactions s"
  "ownerProperties (register_if_unknown e a s) = ownerProperties s"
  "propertyTransactions (register_if_unknown e a s) = propertyTransactions s"
  "registeredUsers (register_if_unknown e a s) = (registeredUsers s)(a := True)"
  "superadminVillages (register_if_unknown e a s) = superadminVillages s"
  "balance (register_if_unknown e a s) = balance s"
  by (simp_all add: register_if_unknown_def fun_upd_idem)

lemma register_if_unknown_roles [simp]:
  "r \<noteq> PROPERTY_OWNER_ROLE \<Longrightarrow> roles (register_if_unknown e a s) r = roles s r"
  by (simp add: register_if_unknown_def)

lemma first_failure_None: "first_failure cs = None \<longleftrightarrow> (\<forall>c \<in> set cs. c = None)"
  by (induction cs rule: first_failure.induct) auto

lemma require_None [simp]: "require c err = None \<longleftrightarrow> c"
  by (simp add: require_def)


lemmas top_defs = registerUser_def registerProperty_def approveProperty_def
  listPropertyForSale_def requestToPurchase_def processPurchaseRequest_def completePurchase_def
  updatePropertyDocuments_def removeFromSale_def addSuperAdmin_def makeAvailable_def
  requestToLandOwner_def processRequest_def buyProperty_def pause_def unpause_def grantRole_def
  revokeRole_def renounceRole_def receive_def

lemmas checks_defs = registerUser_checks_def registerProperty_checks_def
  approveProperty_checks_def listPropertyForSale_checks_def requestToPurchase_checks_def
  processPurchaseRequest_checks_def completePurchase_checks_def
  updatePropertyDocuments_checks_def removeFromSale_checks_def addSuperAdmin_checks_def

lemmas effects_defs = registerUser_effects_def registerProperty_effects_def
  approveProperty_effects_def listPropertyForSale_effects_def requestToPurchase_effects_def
  processPurchaseRequest_approve_def processPurchaseRequest_reject_def
  processPurchaseRequest_refund_def processPurchaseRequest_stamp_def
  completePurchase_transfer_def completePurchase_payment_def completePurchase_finish_def
  updatePropertyDocuments_effects_def removeFromSale_effects_def addSuperAdmin_effects_def
  call_value_def

lemmas sym_defs = top_defs checks_defs effects_defs check_defs apply_call_def constructor_def
  zero_LandRegistry_def zero_Property_def zero_Transaction_def MAX_UINT256_def Let_def

lemmas eval_defs = sym_defs write_defs scenario_defs remove_owned.simps

section \<open>What the entry points that move value do\<close>

lemma nested_calls_rejected:
  assumes "entered sm" and "\<not> paused sm"
  shows "listPropertyForSale e1 pid1 price1 sm = Inl ReentrancyGuardReentrantCall"
    and "requestToPurchase e2 v2 pid2 price2 ipfs2 sm = Inl ReentrancyGuardReentrantCall"
    and "processPurchaseRequest e3 tid3 a3 sm = Inl ReentrancyGuardReentrantCall"
    and "completePurchase e4 tid4 sm = Inl ReentrancyGuardReentrantCall"
  using assms by (simp_all add: top_defs checks_defs check_defs)

lemma completePurchase_checks_None:
  "completePurchase_checks e tid s = None \<longleftrightarrow>
     \<not> paused s \<and> \<not> entered s \<and> t_id (transactions s tid) \<noteq> 0
     \<and> t_status (transactions s tid) = TS_Approved
     \<and> t_buyer (transactions s tid) = msg_sender e"
  by (simp add: completePurchase_checks_def check_defs first_failure_None)

lemma processPurchaseRequest_checks_None:
  "processPurchaseRequest_checks e tid s = None \<longleftrightarrow>
     \<not> paused s \<and> \<not> entered s \<and> t_id (transactions s tid) \<noteq> 0
     \<and> t_seller (transactions s tid) = msg_sender e
     \<and> t_status (transactions s tid) = TS_Pending"
  by (simp add: processPurchaseRequest_checks_def check_defs first_failure_None)

lemma call_value_Some:
  "call_value e to v s = Some s' \<longleftrightarrow>
     v \<le> balance s \<and> to \<notin> refusing e
     \<and> s' = s\<lparr>balance := balance s - v, trace := trace s @ [Sent to v]\<rparr>"
  by (auto simp: call_value_def)

lemma completePurchase_Inr:
  "completePurchase e tid s = Inr s' \<longleftrightarrow>
     completePurchase_checks e tid s = None
     \<and> (\<exists>sm. completePurchase_payment e tid
                 (completePurchase_transfer e tid (s\<lparr>entered := True\<rparr>)) = Some sm
           \<and> s' = (completePurchase_finish e tid
                      (p_owner (properties s (t_propertyId (transactions s tid)))) sm)
                   \<lparr>entered := False\<rparr>)"
  by (auto simp: completePurchase_def split: option.splits)

lemma processPurchaseRequest_reject_Inr:
  "processPurchaseRequest e tid False s = Inr s' \<longleftrightarrow>
     processPurchaseRequest_checks e tid s = None
     \<and> (\<exists>sm. processPurchaseRequest_refund e tid
                 (processPurchaseRequest_reject tid (s\<lparr>entered := True\<rparr>)) = Some sm
           \<and> s' = (processPurchaseRequest_stamp e tid
                      (emit (PurchaseRejected tid (t_propertyId (transactions sm tid))
                               (t_buyer (transactions sm tid))) sm))
                   \<lparr>entered := False\<rparr>)"
  by (auto simp: processPurchaseRequest_def split: option.splits)


lemma completePurchase_transfer_fields [simp]:
  "paused (completePurchase_transfer e tid s) = paused s"
  "entered (completePurchase_transfer e tid s) = entered s"
  "propertyIds (completePurchase_transfer e tid s) = propertyIds s"
  "transactionIds (completePurchase_transfer e tid s) = transactionIds s"
  "transactions (completePurchase_transfer e tid s) = transactions s"
  "propertyTransactions (completePurchase_transfer e tid s) = propertyTransactions s"
  "superadminVillages (completePurchase_transfer e tid s) = superadminVillages s"
  "balance (completePurchase_transfer e tid s) = balance s"
  "properties (completePurchase_transfer e tid s) = (properties s)
     (t_propertyId (transactions s tid) :=
        (properties s (t_propertyId (transactions s tid)))
          \<lparr>p_owner := t_buyer (transactions s tid),
           p_marketValue := t_price (transactions s tid),
           p_status := PS_Approved,
           p_lastUpdated := block_timestamp e\<rparr>)"
  by (simp_all add: completePurchase_transfer_def Let_def)

lemma processPurchaseRequest_reject_fields [simp]:
  "paused (processPurchaseRequest_reject tid s) = paused s"
  "entered (processPurchaseRequest_reject tid s) = entered s"
  "roles (processPurchaseRequest_reject tid s) = roles s"
  "propertyIds (processPurchaseRequest_reject tid s) = propertyIds s"
  "transactionIds (processPurchaseRequest_reject tid s) = transactionIds s"
  "ownerProperties (processPurchaseRequest_reject tid s) = ownerProperties s"
  "propertyTransactions (processPurchaseRequest_reject tid s) = propertyTransactions s"
  "registeredUsers (processPurchaseRequest_reject tid s) = registeredUsers s"
  "userRoles (processPurchaseRequest_reject tid s) = userRoles s"
  "superadminVillages (processPurchaseRequest_reject tid s) = superadminVillages s"
  "balance (processPurchaseRequest_reject tid s) = balance s"
  "trace (processPurchaseRequest_reject tid s) = trace s"
  "transactions (processPurchaseRequest_reject tid s) =
     (transactions s)(tid := (transactions s tid)\<lparr>t_status := TS_Rejected\<rparr>)"
  "properties (processPurchaseRequest_reject tid s) = (properties s)
     (t_propertyId (transactions s tid) :=
        (properties s (t_propertyId (transactions s tid)))\<lparr>p_status := PS_ListedForSale\<rparr>)"
  by (simp_all add: processPurchaseRequest_reject_def Let_def)

section \<open>What a successful call writes\<close>

lemma registerUser_effects_fields [simp]:
  "paused (registerUser_effects e user r roleName s) = paused s"
  "entered (registerUser_effects e user r roleName s) = entered s"
  "propertyIds (registerUser_effects e user r roleName s) = propertyIds s"
  "transactionIds (registerUser_effects e user r roleName s) = transactionIds s"
  "properties (registerUser_effects e user r roleName s) = properties s"
  "transactions (registerUser_effects e user r roleName s) = transactions s"
  "ownerProperties (registerUser_effects e user r roleName s) = ownerProperties s"
  "propertyTransactions (registerUser_effects e user r roleName s) = propertyTransactions s"
  "balance (registerUser_effects e user r roleName s) = balance s"
  by (simp_all add: registerUser_effects_def Let_def)

lemma registerProperty_effects_fields [simp]:
  "paused (registerProperty_effects e st di vi su owner mv ipfs s) = paused s"
  "entered (registerProperty_effects e st di vi su owner mv ipfs s) = entered s"
  "propertyIds (registerProperty_effects e st di vi su owner mv ipfs s) = propertyIds s + 1"
  "transactionIds (registerProperty_effects e st di vi su owner mv ipfs s) = transactionIds s"
  "transactions (registerProperty_effects e st di vi su owner mv ipfs s) = transactions s"
  "ownerProperties (registerProperty_effects e st di vi su owner mv ipfs s) = (ownerProperties s)(owner := ownerProperties s owner @ [propertyIds s + 1])"
  "propertyTransactions (registerProperty_effects e st di vi su owner mv ipfs s) = propertyTransactions s"
  "balance (registerProperty_effects e st di vi su owner mv ipfs s) = balance s"
  by (simp_all add: registerProperty_effects_def Let_def)

lemma approveProperty_effects_fields [simp]:
  "paused (approveProperty_effects e pid approve s) = paused s"
  "entered (approveProperty_effects e pid approve s) = entered s"
  "propertyIds (approveProperty_effects e pid approve s) = propertyIds s"
  "transactionIds (approveProperty_effects e pid approve s) = transactionIds s"
  "transactions (approveProperty_effects e pid approve s) = transactions s"
  "ownerProperties (approveProperty_effects e pid approve s) = ownerProperties s"
  "propertyTransactions (approveProperty_effects e pid approve s) = propertyTransactions s"
  "balance (approveProperty_effects e pid approve s) = balance s"
  by (simp_all add: approveProperty_effects_def Let_def)

lemma listPropertyForSale_effects_fields [simp]:
  "paused (listPropertyForSale_effects e pid price s) = paused s"
  "entered (listPropertyForSale_effects e pid price s) = entered s"
  "propertyIds (listPropertyForSale_effects e pid price s) = propertyIds s"
  "transactionIds (listPropertyForSale_effects e pid price s) = transactionIds s"
  "properties (listPropertyForSale_effects e pid price s) = (properties s)(pid := (properties s pid)\<lparr>p_status := PS_ListedForSale, p_lastUpdated := block_timestamp e\<rparr>)"
  "transactions (listPropertyForSale_effects e pid price s) = transactions s"
  "ownerProperties (listPropertyForSale_effects e pid price s) = ownerProperties s"
  "propertyTransactions (listPropertyForSale_effects e pid price s) = propertyTransactions s"
  "balance (listPropertyForSale_effects e pid price s) = balance s"
  by (simp_all add: listPropertyForSale_effects_def Let_def)

lemma requestToPurchase_effects_fields [simp]:
  "paused (requestToPurchase_effects e v pid price ipfs s) = paused s"
  "entered (requestToPurchase_effects e v pid price ipfs s) = entered s"
  "propertyIds (requestToPurchase_effects e v pid price ipfs s) = propertyIds s"
  "transactionIds (requestToPurchase_effects e v pid price ipfs s) = transactionIds s + 1"
  "properties (requestToPurchase_effects e v pid price ipfs s) = (properties s)(pid := (properties s pid)\<lparr>p_status := PS_SaleInProgress, p_lastUpdated := block_timestamp e\<rparr>)"
  "transactions (requestToPurchase_effects e v pid price ipfs s) = (transactions s)(transactionIds s + 1 := \<lparr>t_id = transactionIds s + 1, t_propertyId = pid,
       t_seller = p_owner (properties s pid), t_buyer = msg_sender e, t_price = price,
       t_status = TS_Pending, t_requestedAt = block_timestamp e, t_completedAt = 0,
       t_ipfsHash = ipfs\<rparr>)"
  "ownerProperties (requestToPurchase_effects e v pid price ipfs s) = ownerProperties s"
  "propertyTransactions (requestToPurchase_effects e v pid price ipfs s) = (propertyTransactions s)(pid := propertyTransactions s pid @ [transactionIds s + 1])"
  "balance (requestToPurchase_effects e v pid price ipfs s) = balance s + v"
  by (simp_all add: requestToPurchase_effects_def Let_def)

lemma processPurchaseRequest_approve_fields [simp]:
  "paused (processPurchaseRequest_approve tid s) = paused s"
  "entered (processPurchaseRequest_approve tid s) = entered s"
  "propertyIds (processPurchaseRequest_approve tid s) = propertyIds s"
  "transactionIds (processPurchaseRequest_approve tid s) = transactionIds s"
  "properties (processPurchaseRequest_approve tid s) = properties s"
  "transactions (processPurchaseRequest_approve tid s) = (transactions s)(tid := (transactions s tid)\<lparr>t_status := TS_Approved\<rparr>)"
  "ownerProperties (processPurchaseRequest_approve tid s) = ownerProperties s"
  "propertyTransactions (processPurchaseRequest_approve tid s) = propertyTransactions s"
  "balance (processPurchaseRequest_approve tid s) = balance s"
  by (simp_all add: processPurchaseRequest_approve_def Let_def)

lemma processPurchaseRequest_stamp_fields [simp]:
  "paused (processPurchaseRequest_stamp e tid s) = paused s"
  "entered (processPurchaseRequest_stamp e tid s) = entered s"
  "propertyIds (processPurchaseRequest_stamp e tid s) = propertyIds s"
  "transactionIds (processPurchaseRequest_stamp e tid s) = transactionIds s"
  "properties (processPurchaseRequest_stamp e tid s) = (properties s)(t_propertyId (transactions s tid) :=
       (properties s (t_propertyId (transactions s tid)))\<lparr>p_lastUpdated := block_timestamp e\<rparr>)"
  "transactions (processPurchaseRequest_stamp e tid s) = (transactions s)(tid := (transactions s tid)\<lparr>t_completedAt := block_timestamp e\<rparr>)"
  "ownerProperties (processPurchaseRequest_stamp e tid s) = ownerProperties s"
  "propertyTransactions (processPurchaseRequest_stamp e tid s) = propertyTransactions s"
  "balance (processPurchaseRequest_stamp e tid s) = balance s"
  by (simp_all add: processPurchaseRequest_stamp_def Let_def)

lemma completePurchase_finish_fields [simp]:
  "paused (completePurchase_finish e tid oldOwner s) = paused s"
  "entered (completePurchase_finish e tid oldOwner s) = entered s"
  "propertyIds (completePurchase_finish e tid oldOwner s) = propertyIds s"
  "transactionIds (completePurchase_finish e tid oldOwner s) = transactionIds s"
  "properties (completePurchase_finish e tid oldOwner s) = properties s"
  "transactions (completePurchase_finish e tid oldOwner s) = (transactions s)(tid := (transactions s tid)\<lparr>t_status := TS_Completed, t_completedAt := block_timestamp e\<rparr>)"
  "ownerProperties (completePurchase_finish e tid oldOwner s) = ownerProperties s"
  "propertyTransactions (completePurchase_finish e tid oldOwner s) = propertyTransactions s"
  "balance (completePurchase_finish e tid oldOwner s) = balance s"
  by (simp_all add: completePurchase_finish_def Let_def)

lemma updatePropertyDocuments_effects_fields [simp]:
  "paused (updatePropertyDocuments_effects e pid ipfs s) = paused s"
  "entered (updatePropertyDocuments_effects e pid ipfs s) = entered s"
  "propertyIds (updatePropertyDocuments_effects e pid ipfs s) = propertyIds s"
  "transactionIds (updatePropertyDocuments_effects e pid ipfs s) = transactionIds s"
  "properties (updatePropertyDocuments_effects e pid ipfs s) = (properties s)(pid := (properties s pid)\<lparr>p_ipfsHash := ipfs, p_lastUpdated := block_timestamp e\<rparr>)"
  "transactions (updatePropertyDocuments_effects e pid ipfs s) = transactions s"
  "ownerProperties (updatePropertyDocuments_effects e pid ipfs s) = ownerProperties s"
  "propertyTransactions (updatePropertyDocuments_effects e pid ipfs s) = propertyTransactions s"
  "balance (updatePropertyDocuments_effects e pid ipfs s) = balance s"
  by (simp_all add: updatePropertyDocuments_effects_def Let_def)

lemma removeFromSale_effects_fields [simp]:
  "paused (removeFromSale_effects e pid s) = paused s"
  "entered (removeFromSale_effects e pid s) = entered s"
  "propertyIds (removeFromSale_effects e pid s) = propertyIds s"
  "transactionIds (removeFromSale_effects e pid s) = transactionIds s"
  "properties (removeFromSale_effects e pid s) = (properties s)(pid := (properties s pid)\<lparr>p_status := PS_Approved, p_lastUpdated := block_timestamp e\<rparr>)"
  "transactions (removeFromSale_effects e pid s) = transactions s"
  "ownerProperties (removeFromSale_effects e pid s) = ownerProperties s"
  "propertyTransactions (removeFromSale_effects e pid s) = propertyTransactions s"
  "balance (removeFromSale_effects e pid s) = balance s"
  by (simp_all add: removeFromSale_effects_def Let_def)

lemma addSuperAdmin_effects_fields [simp]:
  "paused (addSuperAdmin_effects e a villages roleName s) = paused s"
  "entered (addSuperAdmin_effects e a villages roleName s) = entered s"
  "propertyIds (addSuperAdmin_effects e a villages roleName s) = propertyIds s"
  "transactionIds (addSuperAdmin_effects e a villages roleName s) = transactionIds s"
  "properties (addSuperAdmin_effects e a villages roleName s) = properties s"
  "transactions (addSuperAdmin_effects e a villages roleName s) = transactions s"
  "ownerProperties (addSuperAdmin_effects e a villages roleName s) = ownerProperties s"
  "propertyTransactions (addSuperAdmin_effects e a villages roleName s) = propertyTransactions s"
  "balance (addSuperAdmin_effects e a villages roleName s) = balance s"
  by (simp_all add: addSuperAdmin_effects_def Let_def)

lemma registerProperty_effects_properties [simp]:
  "properties (registerProperty_effects e st di vi su owner mv ipfs s) =
     (properties s)(propertyIds s + 1 :=
        \<lparr>p_id = propertyIds s + 1, p_state = st, p_district = di, p_village = vi,
         p_surveyNumber = su, p_owner = owner, p_marketValue = mv,
         p_propertyId = st @ ''-'' @ di @ ''-'' @ vi @ ''-'' @ su @ ''-''
                        @ toString (propertyIds s + 1),
         p_ipfsHash = ipfs, p_status = PS_Pending, p_registeredAt = block_timestamp e,
         p_lastUpdated = block_timestamp e, p_isActive = True\<rparr>)"
  by (simp add: registerProperty_effects_def Let_def)

lemma approveProperty_effects_properties [simp]:
  "properties (approveProperty_effects e pid approve s) =
     (properties s)(pid :=
        (if approve then (properties s pid)\<lparr>p_status := PS_Approved\<rparr>
         else (properties s pid)\<lparr>p_status := PS_Rejected, p_isActive := False\<rparr>)
        \<lparr>p_lastUpdated := block_timestamp e\<rparr>)"
  by (simp add: approveProperty_effects_def Let_def)

lemma completePurchase_transfer_ownerProperties:
  "ownerProperties (completePurchase_transfer e tid s) =
     (let pid = t_propertyId (transactions s tid);
          oldOwner = p_owner (properties s pid);
          buyer = t_buyer (transactions s tid);
          removed = (ownerProperties s)
                      (oldOwner := remove_owned 0 pid (ownerProperties s oldOwner))
      in removed(buyer := removed buyer @ [pid]))"
  by (simp add: completePurchase_transfer_def Let_def)

lemma simple_Inr:
  "registerUser e user r roleName s = Inr s' \<longleftrightarrow>
     registerUser_checks e user r s = None \<and> s' = registerUser_effects e user r roleName s"
  "registerProperty e st di vi su owner mv ipfs s = Inr s' \<longleftrightarrow>
     registerProperty_checks st di vi su owner mv s = None
     \<and> s' = registerProperty_effects e st di vi su owner mv ipfs s"
  "approveProperty e pid approve s = Inr s' \<longleftrightarrow>
     approveProperty_checks e pid s = None \<and> s' = approveProperty_effects e pid approve s"
  "listPropertyForSale e pid price s = Inr s' \<longleftrightarrow>
     listPropertyForSale_checks e pid price s = None
     \<and> s' = listPropertyForSale_effects e pid price s"
  "requestToPurchase e v pid price ipfs s = Inr s' \<longleftrightarrow>
     requestToPurchase_checks e v pid price s = None
     \<and> s' = requestToPurchase_effects e v pid price ipfs s"
  "updatePropertyDocuments e pid ipfs s = Inr s' \<longleftrightarrow>
     updatePropertyDocuments_checks e pid s = None
     \<and> s' = updatePropertyDocuments_effects e pid ipfs s"
  "removeFromSale e pid s = Inr s' \<longleftrightarrow>
     removeFromSale_checks e pid s = None \<and> s' = removeFromSale_effects e pid s"
  "addSuperAdmin e a villages roleName s = Inr s' \<longleftrightarrow>
     addSuperAdmin_checks e a s = None \<and> s' = addSuperAdmin_effects e a villages roleName s"
  by (auto simp: top_defs split: option.splits)

lemma processPurchaseRequest_approve_Inr:
  "processPurchaseRequest e tid True s = Inr s' \<longleftrightarrow>
     processPurchaseRequest_checks e tid s = None
     \<and> s' = (processPurchaseRequest_stamp e tid
               (processPurchaseRequest_approve tid (s\<lparr>entered := True\<rparr>)))\<lparr>entered := False\<rparr>"
  by (auto simp: processPurchaseRequest_def split: option.splits)

lemma admin_Inr:
  "pause e s = Inr s' \<Longrightarrow> s' = emit (Paused (msg_sender e)) (s\<lparr>paused := True\<rparr>)"
  "unpause e s = Inr s' \<Longrightarrow> s' = emit (Unpaused (msg_sender e)) (s\<lparr>paused := False\<rparr>)"
  "grantRole e r a s = Inr s' \<Longrightarrow> s' = grantRole_internal e r a s"
  "revokeRole e r a s = Inr s' \<Longrightarrow> s' = revokeRole_internal e r a s"
  "renounceRole e r a s = Inr s' \<Longrightarrow> s' = revokeRole_internal e r a s"
  "receive v s = Inr s' \<Longrightarrow> s' = s\<lparr>balance := balance s + v\<rparr>"
  by (auto simp: top_defs split: option.splits)


lemma step_Inr_cases [consumes 1, case_names quiet register approve list request
    process_approve process_reject complete documents remove]:
  assumes "step e c s = Inr s'"
  obtains
    (quiet) "properties s' = properties s" "transactions s' = transactions s"
      "ownerProperties s' = ownerProperties s" "propertyIds s' = propertyIds s"
      "transactionIds s' = transactionIds s" "balance s \<le> balance s'"
      "entered s' = entered s"
  | (register) st di vi su owner mv ipfs where
      "registerProperty_checks st di vi su owner mv s = None"
      "s' = registerProperty_effects e st di vi su owner mv ipfs s"
  | (approve) pid a where
      "approveProperty_checks e pid s = None" "s' = approveProperty_effects e pid a s"
  | (list) pid price where
      "listPropertyForSale_checks e pid price s = None"
      "s' = listPropertyForSale_effects e pid price s"
  | (request) v pid price ipfs where
      "requestToPurchase_checks e v pid price s = None"
      "s' = requestToPurchase_effects e v pid price ipfs s"
  | (process_approve) tid where
      "processPurchaseRequest_checks e tid s = None"
      "s' = (processPurchaseRequest_stamp e tid
              (processPurchaseRequest_approve tid (s\<lparr>entered := True\<rparr>)))\<lparr>entered := False\<rparr>"
  | (process_reject) tid sm where
      "processPurchaseRequest_checks e tid s = None"
      "processPurchaseRequest_refund e tid
         (processPurchaseRequest_reject tid (s\<lparr>entered := True\<rparr>)) = Some sm"
      "s' = (processPurchaseRequest_stamp e tid
              (emit (PurchaseRejected tid (t_propertyId (transactions sm tid))
                       (t_buyer (transactions sm tid))) sm))\<lparr>entered := False\<rparr>"
  | (complete) tid sm where
      "completePurchase_checks e tid s = None"
      "completePurchase_payment e tid
         (completePurchase_transfer e tid (s\<lparr>entered := True\<rparr>)) = Some sm"
      "s' = (completePurchase_finish e tid
              (p_owner (properties s (t_propertyId (transactions s tid)))) sm)
            \<lparr>entered := False\<rparr>"
  | (documents) pid ipfs where
      "updatePropertyDocuments_checks e pid s = None"
      "s' = updatePropertyDocuments_effects e pid ipfs s"
  | (remove) pid where
      "c = RemoveFromSale pid" "removeFromSale_checks e pid s = None"
      "s' = removeFromSale_effects e pid s"
proof (cases c)
  case (RegisterUser user r roleName)
  with assms quiet show ?thesis by (auto simp: simple_Inr)
next
  case (RegisterProperty st di vi su owner mv ipfs)
  with assms register show ?thesis by (auto simp: simple_Inr)
next
  case (ApproveProperty pid a)
  with assms approve show ?thesis by (auto simp: simple_Inr)
next
  case (ListPropertyForSale pid price)
  with assms list show ?thesis by (auto simp: simple_Inr)
next
  case (RequestToPurchase v pid price ipfs)
  with assms request show ?thesis by (auto simp: simple_Inr)
next
  case (ProcessPurchaseRequest tid a)
  show ?thesis
  proof (cases a)
    case True
    with assms ProcessPurchaseRequest process_approve show ?thesis
      by (auto simp: processPurchaseRequest_approve_Inr)
  next
    case False
    with assms ProcessPurchaseRequest process_reject show ?thesis
      by (auto simp: processPurchaseRequest_reject_Inr)
  qed
next
  case (CompletePurchase tid)
  with assms complete show ?thesis by (auto simp: completePurchase_Inr)
next
  case (UpdatePropertyDocuments pid ipfs)
  with assms documents show ?thesis by (auto simp: simple_Inr)
next
  case (RemoveFromSale pid)
  with assms remove show ?thesis by (auto simp: simple_Inr)
next
  case (AddSuperAdmin a villages roleName)
  with assms quiet show ?thesis by (auto simp: simple_Inr)
next
  case (MakeAvailable pid price)
  with assms list show ?thesis by (auto simp: simple_Inr makeAvailable_def)
next
  case (RequestToLandOwner v pid price ipfs)
  with assms request show ?thesis by (auto simp: simple_Inr requestToLandOwner_def)
next
  case (ProcessRequest tid a)
  show ?thesis
  proof (cases a)
    case True
    with assms ProcessRequest process_approve show ?thesis
      by (auto simp: processPurchaseRequest_approve_Inr processRequest_def)
  next
    case False
    with assms ProcessRequest process_reject show ?thesis
      by (auto simp: processPurchaseRequest_reject_Inr processRequest_def)
  qed
next
  case (BuyProperty tid)
  with assms complete show ?thesis by (auto simp: completePurchase_Inr buyProperty_def)
next
  case Pause
  with assms quiet show ?thesis by (auto dest!: admin_Inr)
next
  case Unpause
  with assms quiet show ?thesis by (auto dest!: admin_Inr)
next
  case (GrantRole r a)
  with assms quiet show ?thesis by (auto dest!: admin_Inr)
next
  case (RevokeRole r a)
  with assms quiet show ?thesis by (auto dest!: admin_Inr)
next
  case (RenounceRole r a)
  with assms quiet show ?thesis by (auto dest!: admin_Inr)
next
  case (Receive v)
  with assms quiet show ?thesis by (auto dest!: admin_Inr)
qed

section \<open>Invariants of the reachable states\<close>

lemma swap_pop_mset:
  assumes "i < length xs"
  shows "mset (butlast (xs[i := xs ! (length xs - 1)])) = mset xs - {#xs ! i#}"
proof (cases xs rule: rev_cases)
  case Nil
  with assms show ?thesis by simp
next
  case (snoc ys l)
  show ?thesis
  proof (cases "i < length ys")
    case True
    then show ?thesis
      by (simp add: snoc nth_append list_update_append mset_update)
  next
    case False
    with assms snoc have "i = length ys" by simp
    then show ?thesis by (simp add: snoc)
  qed
qed

lemma remove_owned_mset:
  "i \<le> length xs \<Longrightarrow> pid \<notin> set (take i xs) \<Longrightarrow>
     mset (remove_owned i pid xs) = mset xs - {#pid#}"
proof (induction i pid xs rule: remove_owned.induct)
  case (1 i pid xs)
  show ?case
  proof (cases "i < length xs")
    case False
    with "1.prems" show ?thesis by (simp add: remove_owned.simps)
  next
    case inside: True
    show ?thesis
    proof (cases "xs ! i = pid")
      case True
      with inside swap_pop_mset [OF inside] show ?thesis
        by (simp add: remove_owned.simps)
    next
      case False
      with inside "1.prems" have "pid \<notin> set (take (i + 1) xs)"
        by (simp add: take_Suc_conv_app_nth)
      with "1.IH" [OF inside False] inside False show ?thesis
        by (simp add: remove_owned.simps [of i])
    qed
  qed
qed

lemma remove_owned_remove1: "mset (remove_owned 0 pid xs) = mset (remove1 pid xs)"
  by (simp add: remove_owned_mset)

lemma remove_owned_distinct:
  assumes "distinct xs"
  shows "distinct (remove_owned 0 pid xs)" and "set (remove_owned 0 pid xs) = set xs - {pid}"
proof -
  from assms have d: "distinct (remove1 pid xs)" by simp
  with remove_owned_remove1 [of pid xs] show "distinct (remove_owned 0 pid xs)"
    by (metis mset_eq_imp_distinct_iff)
  from remove_owned_remove1 [of pid xs]
  have "set (remove_owned 0 pid xs) = set (remove1 pid xs)" by (rule mset_eq_setD)
  with assms show "set (remove_owned 0 pid xs) = set xs - {pid}" by simp
qed

lemma refund_Some:
  assumes "processPurchaseRequest_refund e tid s0 = Some sm"
  shows "transactions sm = transactions s0" "properties sm = properties s0"
    "ownerProperties sm = ownerProperties s0" "propertyIds sm = propertyIds s0"
    "transactionIds sm = transactionIds s0"
    "balance sm = balance s0 - t_price (transactions s0 tid)"
    "t_price (transactions s0 tid) \<le> balance s0"
  using assms by (auto simp: processPurchaseRequest_refund_def call_value_Some)

lemma payment_Some:
  assumes "completePurchase_payment e tid s0 = Some sm"
  shows "transactions sm = transactions s0" "properties sm = properties s0"
    "ownerProperties sm = ownerProperties s0" "propertyIds sm = propertyIds s0"
    "transactionIds sm = transactionIds s0"
    "balance sm = balance s0 - t_price (transactions s0 tid)"
    "t_price (transactions s0 tid) \<le> balance s0"
  using assms by (auto simp: completePurchase_payment_def call_value_Some)

lemma constructor_fields [simp]:
  "properties (constructor e) = (\<lambda>n. zero_Property)"
  "transactions (constructor e) = (\<lambda>n. zero_Transaction)"
  "ownerProperties (constructor e) = (\<lambda>a. [])"
  "propertyIds (constructor e) = 0"
  "transactionIds (constructor e) = 0"
  "balance (constructor e) = 0"
  "paused (constructor e) = False"
  "entered (constructor e) = False"
  by (simp_all add: constructor_def zero_LandRegistry_def)

lemma pending_unstamped_step:
  assumes "step e c s = Inr s'" and "pending_unstamped s"
  shows "pending_unstamped s'"
  using assms
proof (cases rule: step_Inr_cases)
  case (process_reject tid sm)
  with assms(2) refund_Some [OF process_reject(2)] show ?thesis
    by (simp add: pending_unstamped_def)
next
  case (complete tid sm)
  with assms(2) payment_Some [OF complete(2)] show ?thesis
    by (simp add: pending_unstamped_def)
qed (simp_all add: pending_unstamped_def)

lemma reachable_pending_unstamped: "reachable s \<Longrightarrow> pending_unstamped s"
proof (induction rule: reachable.induct)
  case (deployed e)
  show ?case by (simp add: pending_unstamped_def zero_Transaction_def)
next
  case (called s e c s')
  then show ?case by (blast intro: pending_unstamped_step)
qed

lemmas checks_None = registerUser_checks_def registerProperty_checks_def
  approveProperty_checks_def listPropertyForSale_checks_def requestToPurchase_checks_def
  updatePropertyDocuments_checks_def removeFromSale_checks_def addSuperAdmin_checks_def
  completePurchase_checks_None processPurchaseRequest_checks_None
  whenNotPaused_def whenPaused_def nonReentrant_def onlyRole_def onlyPropertyOwner_def
  validProperty_def validTransaction_def first_failure_None

lemma well_formed_step:
  assumes "step e c s = Inr s'" and "well_formed s"
  shows "well_formed s'"
  using assms
proof (cases rule: step_Inr_cases)
  case (register st di vi su owner mv ipfs)
  with assms(2) show ?thesis
    by (auto simp: well_formed_def checks_None le_Suc_eq)
next
  case (request v pid price ipfs)
  with assms(2) show ?thesis
    by (auto simp: well_formed_def checks_None)
next
  case (process_approve tid)
  with assms(2) show ?thesis
    by (auto simp: well_formed_def checks_None)
next
  case (process_reject tid sm)
  with assms(2) refund_Some [OF process_reject(2)] show ?thesis
    by (auto simp: well_formed_def checks_None)
next
  case (complete tid sm)
  with assms(2) payment_Some [OF complete(2)] show ?thesis
    by (auto simp: well_formed_def checks_None)
qed (auto simp: well_formed_def)

lemma reachable_well_formed: "reachable s \<Longrightarrow> well_formed s"
proof (induction rule: reachable.induct)
  case (deployed e)
  show ?case by (simp add: well_formed_def zero_Transaction_def zero_Property_def)
next
  case (called s e c s')
  then show ?case by (blast intro: well_formed_step)
qed

lemma index_exact_step:
  assumes "step e c s = Inr s'" and "well_formed s" and "index_exact s"
  shows "index_exact s'"
  using assms(1)
proof (cases rule: step_Inr_cases)
  case quiet
  with assms(3) show ?thesis by (simp add: index_exact_def)
next
  case (register st di vi su owner mv ipfs)
  from assms(2) have fresh: "p_id (properties s (propertyIds s + 1)) = 0"
    by (fastforce simp: well_formed_def)
  with assms(3) have "\<And>a. propertyIds s + 1 \<notin> set (ownerProperties s a)"
    by (auto simp: index_exact_def)
  with assms(3) fresh register show ?thesis
    by (auto simp: index_exact_def)
next
  case (approve pid a)
  with assms(3) show ?thesis by (auto simp: index_exact_def)
next
  case (list pid price)
  with assms(3) show ?thesis by (auto simp: index_exact_def)
next
  case (request v pid price ipfs)
  with assms(3) show ?thesis by (auto simp: index_exact_def)
next
  case (process_approve tid)
  with assms(3) show ?thesis by (auto simp: index_exact_def)
next
  case (process_reject tid sm)
  with assms(3) refund_Some [OF process_reject(2)] show ?thesis
    by (auto simp: index_exact_def)
next
  case (documents pid ipfs)
  with assms(3) show ?thesis by (auto simp: index_exact_def)
next
  case (remove pid)
  with assms(3) show ?thesis by (auto simp: index_exact_def)
next
  case (complete tid sm)
  define pid where "pid = t_propertyId (transactions s tid)"
  define old where "old = p_owner (properties s pid)"
  define buyer where "buyer = t_buyer (transactions s tid)"
  from complete(1) assms(2) have ex: "p_id (properties s pid) \<noteq> 0"
    by (auto simp: well_formed_def completePurchase_checks_None pid_def)
  from assms(3) have d: "\<And>a. distinct (ownerProperties s a)"
    and m: "\<And>a. set (ownerProperties s a)
              = {p. p_id (properties s p) \<noteq> 0 \<and> p_owner (properties s p) = a}"
    by (auto simp: index_exact_def)
  have lists: "ownerProperties s' =
      ((ownerProperties s)(old := remove_owned 0 pid (ownerProperties s old)))
      (buyer := ((ownerProperties s)(old := remove_owned 0 pid (ownerProperties s old))) buyer
                  @ [pid])"
    using complete(3) payment_Some [OF complete(2)]
    by (simp add: completePurchase_transfer_ownerProperties Let_def pid_def old_def buyer_def)
  have props: "properties s' = (properties s)
     (pid := (properties s pid)\<lparr>p_owner := buyer, p_marketValue := t_price (transactions s tid),
        p_status := PS_Approved, p_lastUpdated := block_timestamp e\<rparr>)"
    using complete(3) payment_Some [OF complete(2)]
    by (simp add: pid_def buyer_def)
  show ?thesis
    unfolding index_exact_def
  proof (intro allI conjI)
    fix a
    show "distinct (ownerProperties s' a)"
      using d [of a] d [of old] m [of a] m [of old] ex
        remove_owned_distinct [OF d [of old], of pid]
      by (auto simp: lists old_def)
    show "set (ownerProperties s' a)
            = {p. p_id (properties s' p) \<noteq> 0 \<and> p_owner (properties s' p) = a}"
      using d [of a] d [of old] m [of a] m [of old] ex
        remove_owned_distinct [OF d [of old], of pid]
      by (auto simp: lists props old_def)
  qed
qed

lemma reachable_index_exact: "reachable s \<Longrightarrow> index_exact s"
proof (induction rule: reachable.induct)
  case (deployed e)
  show ?case by (simp add: index_exact_def zero_Property_def)
next
  case (called s e c s')
  then show ?case by (blast intro: index_exact_step reachable_well_formed)
qed

lemma reachable_apply_call: "reachable s \<Longrightarrow> reachable (apply_call ec s)"
  by (cases "step (fst ec) (snd ec) s") (auto simp: apply_call_def intro: reachable.called)

lemma reachable_run: "reachable s \<Longrightarrow> reachable (run ecs s)"
  by (induction ecs arbitrary: s) (simp_all add: reachable_apply_call)

lemma reachable_deployed_registry: "reachable deployed_registry"
  by (simp add: deployed_registry_def reachable.deployed)

section \<open>The contract holds the price of every open transaction\<close>

lemma funded_same_transactions:
  assumes "funded s" and "transactions s' = transactions s"
    and "transactionIds s' = transactionIds s" and "balance s \<le> balance s'"
    and "entered s' = entered s"
  shows "funded s'"
proof -
  have "due s' = due s" by (rule ext) (simp add: due_def assms(2))
  with assms show ?thesis by (simp add: funded_def escrow_owed_def)
qed

lemma escrow_owed_closed:
  assumes "tid \<le> transactionIds s" and "transactionIds s' = transactionIds s"
    and "\<And>t. t \<noteq> tid \<Longrightarrow> due s' t = due s t" and "due s' tid = 0"
  shows "escrow_owed s' + due s tid = escrow_owed s"
proof -
  have fin: "finite {..transactionIds s}" and mem: "tid \<in> {..transactionIds s}"
    using assms(1) by simp_all
  have "sum (due s') ({..transactionIds s} - {tid}) = sum (due s) ({..transactionIds s} - {tid})"
    by (rule sum.cong) (simp_all add: assms(3))
  with sum.remove [OF fin mem, of "due s"] sum.remove [OF fin mem, of "due s'"] assms(2,4)
  show ?thesis by (simp add: escrow_owed_def)
qed

lemma funded_step:
  assumes "step e c s = Inr s'" and "funded s"
  shows "funded s'"
  using assms(1)
proof (cases rule: step_Inr_cases)
  case quiet
  show ?thesis
    by (rule funded_same_transactions [OF assms(2)]) (simp_all add: quiet)
next
  case (register st di vi su owner mv ipfs)
  show ?thesis
    by (rule funded_same_transactions [OF assms(2)]) (simp_all add: register)
next
  case (approve pid a)
  show ?thesis
    by (rule funded_same_transactions [OF assms(2)]) (simp_all add: approve)
next
  case (list pid price)
  show ?thesis
    by (rule funded_same_transactions [OF assms(2)]) (simp_all add: list)
next
  case (documents pid ipfs)
  show ?thesis
    by (rule funded_same_transactions [OF assms(2)]) (simp_all add: documents)
next
  case (remove pid)
  show ?thesis
    by (rule funded_same_transactions [OF assms(2)]) (simp_all add: remove)
next
  case (request v pid price ipfs)
  from request(1) have pv: "price \<le> v" by (simp add: checks_None)
  have old: "due s' t = due s t" if "t \<le> transactionIds s" for t
    using that by (simp add: due_def request(2))
  have new: "due s' (Suc (transactionIds s)) = price"
    by (simp add: due_def request(2))
  have "sum (due s') {..transactionIds s} = sum (due s) {..transactionIds s}"
    by (rule sum.cong) (simp_all add: old)
  then have "escrow_owed s' = escrow_owed s + price"
    by (simp add: escrow_owed_def request(2) new [unfolded request(2)])
  with assms(2) pv show ?thesis
    by (auto simp: funded_def request(2) le_Suc_eq)
next
  case (process_approve tid)
  have "due s' = due s"
    using process_approve(1)
    by (intro ext) (auto simp: due_def process_approve(2) checks_None)
  with assms(2) show ?thesis
    by (simp add: funded_def escrow_owed_def process_approve(2))
next
  case (process_reject tid sm)
  note sm = refund_Some [OF process_reject(2)]
  from process_reject(1) assms(2) have tid: "tid \<le> transactionIds s"
    and owed: "due s tid = t_price (transactions s tid)"
    by (auto simp: funded_def checks_None due_def)
  have "escrow_owed s' + due s tid = escrow_owed s"
    by (rule escrow_owed_closed [OF tid]) (simp_all add: sm process_reject(3) due_def)
  with assms(2) sm owed show ?thesis
    by (auto simp: funded_def process_reject(3))
next
  case (complete tid sm)
  note sm = payment_Some [OF complete(2)]
  from complete(1) assms(2) have tid: "tid \<le> transactionIds s"
    and owed: "due s tid = t_price (transactions s tid)"
    by (auto simp: funded_def checks_None due_def)
  have "escrow_owed s' + due s tid = escrow_owed s"
    by (rule escrow_owed_closed [OF tid]) (simp_all add: sm complete(3) due_def)
  with assms(2) sm owed show ?thesis
    by (auto simp: funded_def complete(3))
qed

lemma reachable_funded: "reachable s \<Longrightarrow> funded s"
proof (induction rule: reachable.induct)
  case (deployed e)
  show ?case by (simp add: funded_def escrow_owed_def due_def zero_Transaction_def)
next
  case (called s e c s')
  then show ?case by (blast intro: funded_step)
qed

lemma reachable_open_price_held:
  assumes "reachable s" and "t_id (transactions s tid) \<noteq> 0"
    and "t_status (transactions s tid) = TS_Pending \<or> t_status (transactions s tid) = TS_Approved"
  shows "t_price (transactions s tid) \<le> balance s"
proof -
  from reachable_funded [OF assms(1)] assms(2) have tid: "tid \<in> {..transactionIds s}"
    and le: "escrow_owed s \<le> balance s"
    by (auto simp: funded_def)
  have "due s tid \<le> escrow_owed s"
    unfolding escrow_owed_def by (rule member_le_sum [OF tid]) simp_all
  with assms(2,3) le show ?thesis by (auto simp: due_def)
qed

section \<open>One open transaction per property\<close>

lemma reachable_keeping_sale_reachable: "reachable_keeping_sale p s \<Longrightarrow> reachable s"
  by (induction rule: reachable_keeping_sale.induct) (auto intro: reachable.intros)

lemma single_sale_status:
  "single_sale p s \<Longrightarrow> open_for s p t \<Longrightarrow> p_status (properties s p) = PS_SaleInProgress"
  unfolding single_sale_def by blast

lemma single_sale_unique:
  "single_sale p s \<Longrightarrow> open_for s p t1 \<Longrightarrow> open_for s p t2 \<Longrightarrow> t1 = t2"
  unfolding single_sale_def by blast

lemma single_sale_none: "(\<And>t. \<not> open_for s p t) \<Longrightarrow> single_sale p s"
  unfolding single_sale_def by blast

text \<open>A call after which the property has no new open transaction and the same status.\<close>

lemma single_sale_kept:
  assumes "single_sale p s"
    and sub: "\<And>t. open_for s' p t \<Longrightarrow> open_for s p t"
    and st: "p_status (properties s' p) = p_status (properties s p)"
  shows "single_sale p s'"
  unfolding single_sale_def
proof (intro conjI allI impI)
  fix t1 t2
  assume "open_for s' p t1 \<and> open_for s' p t2"
  then have "open_for s p t1 \<and> open_for s p t2" by (blast intro: sub)
  with assms(1) show "t1 = t2" by (blast intro: single_sale_unique)
next
  fix t
  assume "open_for s' p t"
  then have "open_for s p t" by (rule sub)
  with assms(1) st show "p_status (properties s' p) = PS_SaleInProgress"
    by (simp add: single_sale_status)
qed

lemma open_for_same:
  "transactions s' = transactions s \<Longrightarrow> open_for s' p t = open_for s p t"
  by (simp add: open_for_def)

text \<open>
  A call that leaves the transactions alone and writes property \<open>pid\<close>, which has no open
  transaction when it is the property looked at.
\<close>

lemma single_sale_property_write:
  assumes "single_sale p s" and tx: "transactions s' = transactions s"
    and other: "p \<noteq> pid \<Longrightarrow> p_status (properties s' p) = p_status (properties s p)"
    and here: "\<And>t. p = pid \<Longrightarrow> \<not> open_for s p t"
  shows "single_sale p s'"
proof (cases "p = pid")
  case True
  with here show ?thesis by (intro single_sale_none) (simp add: open_for_same [OF tx])
next
  case False
  with other show ?thesis
    by (intro single_sale_kept [OF assms(1)]) (simp_all add: open_for_same [OF tx])
qed

lemma single_sale_step:
  assumes "step e c s = Inr s'" and "\<not> withdraws_sale_in_progress p c s"
    and "well_formed s" and "single_sale p s"
  shows "single_sale p s'"
  using assms(1)
proof (cases rule: step_Inr_cases)
  case quiet
  show ?thesis
    by (rule single_sale_kept [OF assms(4)]) (simp_all add: quiet open_for_same [OF quiet(2)])
next
  case (register st di vi su owner mv ipfs)
  from assms(3) have fresh: "p_id (properties s (propertyIds s + 1)) = 0"
    by (fastforce simp: well_formed_def)
  have none: "\<not> open_for s (propertyIds s + 1) t" for t
  proof
    assume "open_for s (propertyIds s + 1) t"
    then have "t_id (transactions s t) \<noteq> 0"
      and "t_propertyId (transactions s t) = propertyIds s + 1"
      by (simp_all add: open_for_def)
    with assms(3) have "p_id (properties s (propertyIds s + 1)) \<noteq> 0"
      unfolding well_formed_def by metis
    with fresh show False by simp
  qed
  show ?thesis
    by (rule single_sale_property_write [OF assms(4), of _ "propertyIds s + 1"])
       (simp_all add: register none [simplified])
next
  case (approve pid a)
  from approve(1) have "p_status (properties s pid) = PS_Pending"
    by (simp add: checks_None)
  with single_sale_status [OF assms(4)] have none: "p = pid \<Longrightarrow> \<not> open_for s pid t" for t
    by auto
  show ?thesis
    by (rule single_sale_property_write [OF assms(4), of _ pid])
       (simp_all add: approve none)
next
  case (list pid price)
  from list(1) have "p_status (properties s pid) = PS_Approved"
    by (simp add: checks_None)
  with single_sale_status [OF assms(4)] have none: "p = pid \<Longrightarrow> \<not> open_for s pid t" for t
    by auto
  show ?thesis
    by (rule single_sale_property_write [OF assms(4), of _ pid])
       (simp_all add: list none)
next
  case (documents pid ipfs)
  show ?thesis
    by (rule single_sale_kept [OF assms(4)]) (simp_all add: documents open_for_def)
next
  case (remove pid)
  with assms(2) have "p = pid \<Longrightarrow> p_status (properties s p) \<noteq> PS_SaleInProgress"
    by simp
  with single_sale_status [OF assms(4)] have none: "p = pid \<Longrightarrow> \<not> open_for s pid t" for t
    by auto
  show ?thesis
    by (rule single_sale_property_write [OF assms(4), of _ pid])
       (simp_all add: remove none)
next
  case (request v pid price ipfs)
  show ?thesis
  proof (cases "p = pid")
    case True
    from request(1) have "p_status (properties s pid) = PS_ListedForSale"
      by (simp add: checks_None)
    with single_sale_status [OF assms(4)] True have none: "\<not> open_for s p t" for t
      by auto
    have opened: "open_for s' p t \<Longrightarrow> t = transactionIds s + 1" for t
      using none [of t] by (auto simp: request(2) open_for_def split: if_splits)
    have status: "p_status (properties s' p) = PS_SaleInProgress"
      using True by (simp add: request(2))
    show ?thesis
      unfolding single_sale_def using opened status by blast
  next
    case False
    have sub: "open_for s' p t \<Longrightarrow> open_for s p t" for t
      using False by (auto simp: request(2) open_for_def split: if_splits)
    show ?thesis
      using False by (intro single_sale_kept [OF assms(4)] sub) (simp_all add: request(2))
  qed
next
  case (process_approve tid)
  have same: "open_for s' p t = open_for s p t" for t
    using process_approve(1)
    by (auto simp: process_approve(2) open_for_def checks_None)
  show ?thesis
    by (rule single_sale_kept [OF assms(4)]) (simp add: same, simp add: process_approve(2))
next
  case (process_reject tid sm)
  define pid where "pid = t_propertyId (transactions s tid)"
  from process_reject(1) have was: "open_for s pid tid"
    by (simp add: checks_None open_for_def pid_def)
  have sub: "open_for s' p t \<Longrightarrow> open_for s p t \<and> t \<noteq> tid" for t
    using refund_Some [OF process_reject(2)]
    by (auto simp: process_reject(3) open_for_def split: if_splits)
  show ?thesis
  proof (cases "p = pid")
    case True
    with sub was single_sale_unique [OF assms(4)] have "\<not> open_for s' p t" for t
      by blast
    then show ?thesis by (rule single_sale_none)
  next
    case False
    have "p_status (properties s' p) = p_status (properties s p)"
      using False refund_Some [OF process_reject(2)]
      by (simp add: process_reject(3) pid_def)
    with sub show ?thesis by (intro single_sale_kept [OF assms(4)]) blast+
  qed
next
  case (complete tid sm)
  define pid where "pid = t_propertyId (transactions s tid)"
  from complete(1) have was: "open_for s pid tid"
    by (simp add: checks_None open_for_def pid_def)
  have sub: "open_for s' p t \<Longrightarrow> open_for s p t \<and> t \<noteq> tid" for t
    using payment_Some [OF complete(2)]
    by (auto simp: complete(3) open_for_def split: if_splits)
  show ?thesis
  proof (cases "p = pid")
    case True
    with sub was single_sale_unique [OF assms(4)] have "\<not> open_for s' p t" for t
      by blast
    then show ?thesis by (rule single_sale_none)
  next
    case False
    have "p_status (properties s' p) = p_status (properties s p)"
      using False payment_Some [OF complete(2)]
      by (simp add: complete(3) pid_def)
    with sub show ?thesis by (intro single_sale_kept [OF assms(4)]) blast+
  qed
qed

lemma reachable_keeping_sale_single_sale: "reachable_keeping_sale p s \<Longrightarrow> single_sale p s"
proof (induction rule: reachable_keeping_sale.induct)
  case (deployed_ks e)
  show ?case by (simp add: single_sale_def open_for_def zero_Transaction_def)
next
  case (called_ks s c e s')
  then show ?case
    by (blast intro: single_sale_step reachable_well_formed reachable_keeping_sale_reachable)
qed

lemma reachable_keeping_sale_apply_call:
  "reachable_keeping_sale p s \<Longrightarrow> \<not> withdraws_sale_in_progress p (snd ec) s
     \<Longrightarrow> reachable_keeping_sale p (apply_call ec s)"
  by (cases "step (fst ec) (snd ec) s")
     (auto simp: apply_call_def intro: reachable_keeping_sale.called_ks)

lemma reachable_keeping_sale_run:
  "reachable_keeping_sale p s \<Longrightarrow> keeps_sale p ecs s \<Longrightarrow> reachable_keeping_sale p (run ecs s)"
  by (induction ecs arbitrary: s) (simp_all add: reachable_keeping_sale_apply_call)

lemma reachable_keeping_sale_deployed_registry: "reachable_keeping_sale p deployed_registry"
  by (simp add: deployed_registry_def reachable_keeping_sale.deployed_ks)

section \<open>The pause flag\<close>

text \<open>
  Claim C1, as stated, fails: with the flag set, \<open>approveProperty\<close>, \<open>removeFromSale\<close>
  and \<open>updatePropertyDocuments\<close> still succeed and write. In the paused registry below
  the deployer approves the pending parcel 2, and the owner of parcel 1 takes it off sale
  and replaces its document reference.
\<close>

theorem pause_gate_counterexample:
  "paused (run scenario_paused deployed_registry)
   \<and> p_status (properties (run scenario_paused deployed_registry) 2) = PS_Pending
   \<and> approveProperty (caller 1 36) 2 True (run scenario_paused deployed_registry)
       = Inr (approveProperty_effects (caller 1 36) 2 True (run scenario_paused deployed_registry))
   \<and> p_status (properties (approveProperty_effects (caller 1 36) 2 True
         (run scenario_paused deployed_registry)) 2) = PS_Approved
   \<and> p_status (properties (run scenario_paused deployed_registry) 1) = PS_ListedForSale
   \<and> removeFromSale (caller 2 38) 1 (run scenario_paused deployed_registry)
       = Inr (removeFromSale_effects (caller 2 38) 1 (run scenario_paused deployed_registry))
   \<and> p_status (properties (removeFromSale_effects (caller 2 38) 1
         (run scenario_paused deployed_registry)) 1) = PS_Approved
   \<and> updatePropertyDocuments (caller 2 39) 1 ''QmZ'' (run scenario_paused deployed_registry)
       = Inr (updatePropertyDocuments_effects (caller 2 39) 1 ''QmZ''
               (run scenario_paused deployed_registry))
   \<and> p_ipfsHash (properties (updatePropertyDocuments_effects (caller 2 39) 1 ''QmZ''
         (run scenario_paused deployed_registry)) 1) = ''QmZ''
   \<and> p_ipfsHash (properties (run scenario_paused deployed_registry) 1) = ''QmA''"
  by (simp add: eval_defs)

text \<open>
  Claim C1, amended. While the pause flag is set, \<open>registerProperty\<close>,
  \<open>listPropertyForSale\<close>, \<open>requestToPurchase\<close>, \<open>processPurchaseRequest\<close> and
  \<open>completePurchase\<close> revert with \<open>EnforcedPause\<close> (the Paused case) whatever their
  arguments, and the state stays as it was; the queries answer as they do with the flag
  clear; and the checks of \<open>approveProperty\<close>, \<open>removeFromSale\<close> and
  \<open>updatePropertyDocuments\<close>, which carry no \<open>whenNotPaused\<close>, pass or fail as they do
  with the flag clear.
\<close>

theorem pause_gate:
  assumes "paused s"
  shows "registerProperty e st di vi su owner mv ipfs s = Inl EnforcedPause
     \<and> listPropertyForSale e pid price s = Inl EnforcedPause
     \<and> requestToPurchase e v pid price ipfs s = Inl EnforcedPause
     \<and> processPurchaseRequest e tid a s = Inl EnforcedPause
     \<and> completePurchase e tid s = Inl EnforcedPause
     \<and> apply_call (e, RegisterProperty st di vi su owner mv ipfs) s = s
     \<and> apply_call (e, ListPropertyForSale pid price) s = s
     \<and> apply_call (e, RequestToPurchase v pid price ipfs) s = s
     \<and> apply_call (e, ProcessPurchaseRequest tid a) s = s
     \<and> apply_call (e, CompletePurchase tid) s = s
     \<and> getProperty pid s = getProperty pid (s\<lparr>paused := False\<rparr>)
     \<and> getOwnerProperties owner s = getOwnerProperties owner (s\<lparr>paused := False\<rparr>)
     \<and> getTransaction tid s = getTransaction tid (s\<lparr>paused := False\<rparr>)
     \<and> getPropertyTransactions pid s = getPropertyTransactions pid (s\<lparr>paused := False\<rparr>)
     \<and> getTotalProperties s = getTotalProperties (s\<lparr>paused := False\<rparr>)
     \<and> viewRequest pid s = viewRequest pid (s\<lparr>paused := False\<rparr>)
     \<and> approveProperty_checks e pid s = approveProperty_checks e pid (s\<lparr>paused := False\<rparr>)
     \<and> removeFromSale_checks e pid s = removeFromSale_checks e pid (s\<lparr>paused := False\<rparr>)
     \<and> updatePropertyDocuments_checks e pid s
         = updatePropertyDocuments_checks e pid (s\<lparr>paused := False\<rparr>)"
  using assms
  by (simp add: top_defs checks_defs check_defs apply_call_def getProperty_def
      getOwnerProperties_def getTransaction_def getPropertyTransactions_def
      getTotalProperties_def viewRequest_def)

theorem pause_gate_witness:
  "paused (run scenario_paused deployed_registry)
   \<and> registerProperty (caller 3 40) ''Goa'' ''South'' ''Betul'' ''SUR-003'' 3 90 ''QmE''
        (run scenario_paused deployed_registry) = Inl EnforcedPause
   \<and> listPropertyForSale (caller 3 40) 1 150 (run scenario_paused deployed_registry)
        = Inl EnforcedPause
   \<and> requestToPurchase (caller 3 40) 150 1 150 ''QmE'' (run scenario_paused deployed_registry)
        = Inl EnforcedPause
   \<and> processPurchaseRequest (caller 3 40) 1 True (run scenario_paused deployed_registry)
        = Inl EnforcedPause
   \<and> completePurchase (caller 3 40) 1 (run scenario_paused deployed_registry)
        = Inl EnforcedPause"
proof -
  have h: "paused (run scenario_paused deployed_registry)"
    by (simp add: eval_defs)
  from pause_gate [OF h, where e = "caller 3 40" and st = "''Goa''" and di = "''South''"
      and vi = "''Betul''" and su = "''SUR-003''" and owner = 3 and mv = 90
      and ipfs = "''QmE''" and pid = 1 and price = 150 and v = 150 and tid = 1 and a = True] h
  show ?thesis by blast
qed

section \<open>Escrowed value\<close>

text \<open>
  Claim C2 says that a rejected request refunds exactly what the buyer sent and that no
  value stays in the contract. The code accepts any \<open>msg.value\<close> of at least the price
  and sends back (or pays out) the price only. Account 3 sends 200 with a request at
  price 150: after the seller's rejection 150 has left the contract and 50 stays, the only
  transaction being Rejected; after approval and completion the seller has received 150
  and 50 stays as well.
\<close>

theorem overpaid_escrow_retained:
  "steps scenario_overpaid_rejected deployed_registry
     = Inr (run scenario_overpaid_rejected deployed_registry)
   \<and> balance (run scenario_overpaid deployed_registry) = 200
   \<and> released (run scenario_overpaid deployed_registry) = 0
   \<and> t_status (transactions (run scenario_overpaid_rejected deployed_registry) 1) = TS_Rejected
   \<and> transactionIds (run scenario_overpaid_rejected deployed_registry) = 1
   \<and> released (run scenario_overpaid_rejected deployed_registry) = 150
   \<and> last (trace (run scenario_overpaid_rejected deployed_registry)) = Emit (PurchaseRejected 1 1 3)
   \<and> balance (run scenario_overpaid_rejected deployed_registry) = 50
   \<and> steps scenario_overpaid_completed deployed_registry
     = Inr (run scenario_overpaid_completed deployed_registry)
   \<and> t_status (transactions (run scenario_overpaid_completed deployed_registry) 1) = TS_Completed
   \<and> released (run scenario_overpaid_completed deployed_registry) = 150
   \<and> balance (run scenario_overpaid_completed deployed_registry) = 50"
  by (simp add: eval_defs released_def)

section \<open>The order of writes and payments\<close>

text \<open>
  Claim C3, as stated, fails: the payment is not the last thing either call does. When
  the buyer of the approved sale completes it, the seller's account receives the payment
  while the transaction still reads Approved with the completion time of the approval
  (50); Completed and the time 60 are written afterwards, and the last effect of the call
  is the event. When the seller rejects the request, the buyer's account receives the
  refund while the transaction's completion time is still 0 and the property's last
  update is still 40; both are set to 50 afterwards, and the event follows the refund.
\<close>

theorem transfer_not_last_counterexample:
  "completePurchase_during_payment (caller 3 60) 1 (run scenario_approved deployed_registry) \<noteq> None
   \<and> t_status (transactions (the (completePurchase_during_payment (caller 3 60) 1
         (run scenario_approved deployed_registry))) 1) = TS_Approved
   \<and> t_completedAt (transactions (the (completePurchase_during_payment (caller 3 60) 1
         (run scenario_approved deployed_registry))) 1) = 50
   \<and> completePurchase (caller 3 60) 1 (run scenario_approved deployed_registry)
       = Inr (run scenario_completed deployed_registry)
   \<and> t_status (transactions (run scenario_completed deployed_registry) 1) = TS_Completed
   \<and> t_completedAt (transactions (run scenario_completed deployed_registry) 1) = 60
   \<and> last (trace (run scenario_completed deployed_registry))
       = Emit (OwnershipTransferred 1 2 3 1)
   \<and> processPurchaseRequest_during_refund (caller 2 50) 1
         (run scenario_requested deployed_registry) \<noteq> None
   \<and> t_completedAt (transactions (the (processPurchaseRequest_during_refund (caller 2 50) 1
         (run scenario_requested deployed_registry))) 1) = 0
   \<and> p_lastUpdated (properties (the (processPurchaseRequest_during_refund (caller 2 50) 1
         (run scenario_requested deployed_registry))) 1) = 40
   \<and> processPurchaseRequest (caller 2 50) 1 False (run scenario_requested deployed_registry)
       = Inr (apply_call (caller 2 50, ProcessPurchaseRequest 1 False)
               (run scenario_requested deployed_registry))
   \<and> t_completedAt (transactions (apply_call (caller 2 50, ProcessPurchaseRequest 1 False)
         (run scenario_requested deployed_registry)) 1) = 50
   \<and> p_lastUpdated (properties (apply_call (caller 2 50, ProcessPurchaseRequest 1 False)
         (run scenario_requested deployed_registry)) 1) = 50
   \<and> last (trace (apply_call (caller 2 50, ProcessPurchaseRequest 1 False)
         (run scenario_requested deployed_registry))) = Emit (PurchaseRejected 1 1 3)"
  by (simp add: eval_defs completePurchase_during_payment_def
      processPurchaseRequest_during_refund_def)

text \<open>
  Claim C3, amended. In \<open>completePurchase\<close> the owner lists, the property record, the
  registration of the buyer and the roles are written before the payment to the seller
  and are not written after it; the transaction's status and completion time are written
  after the payment. In \<open>processPurchaseRequest\<close> on rejection the transaction's status
  Rejected and the property's status ListedForSale are written before the refund; the
  transaction's completion time and the property's last update are written after it. In
  both, the payment is the last effect before those writes, and while it is under way the
  reentrancy latch is set, so that \<open>listPropertyForSale\<close>, \<open>requestToPurchase\<close>,
  \<open>processPurchaseRequest\<close> and \<open>completePurchase\<close> revert if called from the
  recipient.
\<close>

theorem effects_around_transfer:
  "(completePurchase e tid s = Inr s' \<longrightarrow>
      (\<exists>sm. completePurchase_during_payment e tid s = Some sm
         \<and> entered sm \<and> \<not> entered s'
         \<and> properties s' = properties sm
         \<and> ownerProperties s' = ownerProperties sm
         \<and> registeredUsers s' = registeredUsers sm
         \<and> userRoles s' = userRoles sm
         \<and> roles s' = roles sm
         \<and> balance s' = balance sm
         \<and> t_status (transactions sm tid) = TS_Approved
         \<and> transactions s' = (transactions sm)
              (tid := (transactions sm tid)\<lparr>t_status := TS_Completed,
                        t_completedAt := block_timestamp e\<rparr>)
         \<and> last (trace sm) = Sent (t_seller (transactions s tid)) (t_price (transactions s tid))
         \<and> listPropertyForSale e1 pid1 price1 sm = Inl ReentrancyGuardReentrantCall
         \<and> requestToPurchase e2 v2 pid2 price2 ipfs2 sm = Inl ReentrancyGuardReentrantCall
         \<and> processPurchaseRequest e3 tid3 a3 sm = Inl ReentrancyGuardReentrantCall
         \<and> completePurchase e4 tid4 sm = Inl ReentrancyGuardReentrantCall))
   \<and> (processPurchaseRequest f tid' False r = Inr r' \<longrightarrow>
      (\<exists>rm. processPurchaseRequest_during_refund f tid' r = Some rm
         \<and> entered rm \<and> \<not> entered r'
         \<and> t_status (transactions rm tid') = TS_Rejected
         \<and> p_status (properties rm (t_propertyId (transactions r tid'))) = PS_ListedForSale
         \<and> balance r' = balance rm
         \<and> ownerProperties r' = ownerProperties rm
         \<and> transactions r' = (transactions rm)
              (tid' := (transactions rm tid')\<lparr>t_completedAt := block_timestamp f\<rparr>)
         \<and> properties r' = (properties rm)
              (t_propertyId (transactions r tid') :=
                 (properties rm (t_propertyId (transactions r tid')))
                   \<lparr>p_lastUpdated := block_timestamp f\<rparr>)
         \<and> last (trace rm) = Sent (t_buyer (transactions r tid')) (t_price (transactions r tid'))
         \<and> listPropertyForSale e1 pid1 price1 rm = Inl ReentrancyGuardReentrantCall
         \<and> requestToPurchase e2 v2 pid2 price2 ipfs2 rm = Inl ReentrancyGuardReentrantCall
         \<and> processPurchaseRequest e3 tid3 a3 rm = Inl ReentrancyGuardReentrantCall
         \<and> completePurchase e4 tid4 rm = Inl ReentrancyGuardReentrantCall))"
proof (intro conjI impI)
  assume ok: "completePurchase e tid s = Inr s'"
  then obtain sm where chk: "completePurchase_checks e tid s = None"
    and sm: "completePurchase_payment e tid
               (completePurchase_transfer e tid (s\<lparr>entered := True\<rparr>)) = Some sm"
    and s': "s' = (completePurchase_finish e tid
                    (p_owner (properties s (t_propertyId (transactions s tid)))) sm)
                  \<lparr>entered := False\<rparr>"
    unfolding completePurchase_Inr by blast
  from chk have pre: "\<not> paused s" "t_status (transactions s tid) = TS_Approved"
    by (simp_all add: completePurchase_checks_None)
  from sm have smeq: "sm = (completePurchase_transfer e tid (s\<lparr>entered := True\<rparr>))
      \<lparr>balance := balance s - t_price (transactions s tid),
       trace := trace (completePurchase_transfer e tid (s\<lparr>entered := True\<rparr>))
                   @ [Sent (t_seller (transactions s tid)) (t_price (transactions s tid))]\<rparr>"
    by (simp add: completePurchase_payment_def call_value_Some)
  have during: "completePurchase_during_payment e tid s = Some sm"
    using chk sm by (simp add: completePurchase_during_payment_def)
  have mid: "entered sm" "\<not> paused sm" "transactions sm = transactions s"
    "last (trace sm) = Sent (t_seller (transactions s tid)) (t_price (transactions s tid))"
    using pre by (simp_all add: smeq)
  have fin: "\<not> entered s'" "properties s' = properties sm"
    "ownerProperties s' = ownerProperties sm" "registeredUsers s' = registeredUsers sm"
    "userRoles s' = userRoles sm" "roles s' = roles sm" "balance s' = balance sm"
    "transactions s' = (transactions sm)
        (tid := (transactions sm tid)\<lparr>t_status := TS_Completed,
                  t_completedAt := block_timestamp e\<rparr>)"
    by (simp_all add: s' completePurchase_finish_def Let_def)
  show "\<exists>sm. completePurchase_during_payment e tid s = Some sm
         \<and> entered sm \<and> \<not> entered s'
         \<and> properties s' = properties sm
         \<and> ownerProperties s' = ownerProperties sm
         \<and> registeredUsers s' = registeredUsers sm
         \<and> userRoles s' = userRoles sm
         \<and> roles s' = roles sm
         \<and> balance s' = balance sm
         \<and> t_status (transactions sm tid) = TS_Approved
         \<and> transactions s' = (transactions sm)
              (tid := (transactions sm tid)\<lparr>t_status := TS_Completed,
                        t_completedAt := block_timestamp e\<rparr>)
         \<and> last (trace sm) = Sent (t_seller (transactions s tid)) (t_price (transactions s tid))
         \<and> listPropertyForSale e1 pid1 price1 sm = Inl ReentrancyGuardReentrantCall
         \<and> requestToPurchase e2 v2 pid2 price2 ipfs2 sm = Inl ReentrancyGuardReentrantCall
         \<and> processPurchaseRequest e3 tid3 a3 sm = Inl ReentrancyGuardReentrantCall
         \<and> completePurchase e4 tid4 sm = Inl ReentrancyGuardReentrantCall"
    using during mid fin pre(2) nested_calls_rejected [OF mid(1) mid(2)]
    by (intro exI [of _ sm]) simp
next
  assume ok: "processPurchaseRequest f tid' False r = Inr r'"
  then obtain rm where chk: "processPurchaseRequest_checks f tid' r = None"
    and rm: "processPurchaseRequest_refund f tid'
               (processPurchaseRequest_reject tid' (r\<lparr>entered := True\<rparr>)) = Some rm"
    and r': "r' = (processPurchaseRequest_stamp f tid'
                    (emit (PurchaseRejected tid' (t_propertyId (transactions rm tid'))
                             (t_buyer (transactions rm tid'))) rm))
                  \<lparr>entered := False\<rparr>"
    unfolding processPurchaseRequest_reject_Inr by blast
  from chk have pre: "\<not> paused r"
    by (simp_all add: processPurchaseRequest_checks_None)
  from rm have rmeq: "rm = (processPurchaseRequest_reject tid' (r\<lparr>entered := True\<rparr>))
      \<lparr>balance := balance r - t_price (transactions r tid'),
       trace := trace r @ [Sent (t_buyer (transactions r tid')) (t_price (transactions r tid'))]\<rparr>"
    by (simp add: processPurchaseRequest_refund_def call_value_Some)
  have during: "processPurchaseRequest_during_refund f tid' r = Some rm"
    using chk rm by (simp add: processPurchaseRequest_during_refund_def)
  have mid: "entered rm" "\<not> paused rm"
    "t_status (transactions rm tid') = TS_Rejected"
    "t_propertyId (transactions rm tid') = t_propertyId (transactions r tid')"
    "p_status (properties rm (t_propertyId (transactions r tid'))) = PS_ListedForSale"
    "last (trace rm) = Sent (t_buyer (transactions r tid')) (t_price (transactions r tid'))"
    using pre by (simp_all add: rmeq)
  have fin: "\<not> entered r'" "balance r' = balance rm" "ownerProperties r' = ownerProperties rm"
    "transactions r' = (transactions rm)
        (tid' := (transactions rm tid')\<lparr>t_completedAt := block_timestamp f\<rparr>)"
    "properties r' = (properties rm)
        (t_propertyId (transactions rm tid') :=
           (properties rm (t_propertyId (transactions rm tid')))
             \<lparr>p_lastUpdated := block_timestamp f\<rparr>)"
    by (simp_all add: r' processPurchaseRequest_stamp_def Let_def)
  show "\<exists>rm. processPurchaseRequest_during_refund f tid' r = Some rm
         \<and> entered rm \<and> \<not> entered r'
         \<and> t_status (transactions rm tid') = TS_Rejected
         \<and> p_status (properties rm (t_propertyId (transactions r tid'))) = PS_ListedForSale
         \<and> balance r' = balance rm
         \<and> ownerProperties r' = ownerProperties rm
         \<and> transactions r' = (transactions rm)
              (tid' := (transactions rm tid')\<lparr>t_completedAt := block_timestamp f\<rparr>)
         \<and> properties r' = (properties rm)
              (t_propertyId (transactions r tid') :=
                 (properties rm (t_propertyId (transactions r tid')))
                   \<lparr>p_lastUpdated := block_timestamp f\<rparr>)
         \<and> last (trace rm) = Sent (t_buyer (transactions r tid')) (t_price (transactions r tid'))
         \<and> listPropertyForSale e1 pid1 price1 rm = Inl ReentrancyGuardReentrantCall
         \<and> requestToPurchase e2 v2 pid2 price2 ipfs2 rm = Inl ReentrancyGuardReentrantCall
         \<and> processPurchaseRequest e3 tid3 a3 rm = Inl ReentrancyGuardReentrantCall
         \<and> completePurchase e4 tid4 rm = Inl ReentrancyGuardReentrantCall"
    using during mid fin nested_calls_rejected [OF mid(1) mid(2)]
    by (intro exI [of _ rm]) simp
qed

theorem effects_around_transfer_witness:
  "completePurchase (caller 3 60) 1 (run scenario_approved deployed_registry)
     = Inr (run scenario_completed deployed_registry)
   \<and> (\<exists>sm. completePurchase_during_payment (caller 3 60) 1
               (run scenario_approved deployed_registry) = Some sm
          \<and> entered sm
          \<and> properties (run scenario_completed deployed_registry) = properties sm
          \<and> t_status (transactions sm 1) = TS_Approved
          \<and> transactions (run scenario_completed deployed_registry) = (transactions sm)
               (1 := (transactions sm 1)\<lparr>t_status := TS_Completed,
                        t_completedAt := block_timestamp (caller 3 60)\<rparr>)
          \<and> completePurchase (caller 3 61) 1 sm = Inl ReentrancyGuardReentrantCall)
   \<and> processPurchaseRequest (caller 2 50) 1 False (run scenario_requested deployed_registry)
       = Inr (apply_call (caller 2 50, ProcessPurchaseRequest 1 False)
               (run scenario_requested deployed_registry))
   \<and> (\<exists>rm. processPurchaseRequest_during_refund (caller 2 50) 1
               (run scenario_requested deployed_registry) = Some rm
          \<and> entered rm
          \<and> t_status (transactions rm 1) = TS_Rejected
          \<and> transactions (apply_call (caller 2 50, ProcessPurchaseRequest 1 False)
               (run scenario_requested deployed_registry)) = (transactions rm)
               (1 := (transactions rm 1)\<lparr>t_completedAt := block_timestamp (caller 2 50)\<rparr>)
          \<and> processPurchaseRequest (caller 2 51) 1 False rm = Inl ReentrancyGuardReentrantCall)"
proof -
  have h1: "completePurchase (caller 3 60) 1 (run scenario_approved deployed_registry)
     = Inr (run scenario_completed deployed_registry)"
    by (simp add: eval_defs)
  have h2: "processPurchaseRequest (caller 2 50) 1 False (run scenario_requested deployed_registry)
       = Inr (apply_call (caller 2 50, ProcessPurchaseRequest 1 False)
               (run scenario_requested deployed_registry))"
    by (simp add: eval_defs)
  note t = effects_around_transfer [where e = "caller 3 60" and tid = 1
      and s = "run scenario_approved deployed_registry"
      and s' = "run scenario_completed deployed_registry"
      and f = "caller 2 50" and tid' = 1 and r = "run scenario_requested deployed_registry"
      and r' = "apply_call (caller 2 50, ProcessPurchaseRequest 1 False)
               (run scenario_requested deployed_registry)"
      and ?e4.0 = "caller 3 61" and ?tid4.0 = 1 and ?e3.0 = "caller 2 51" and ?tid3.0 = 1
      and ?a3.0 = False]
  from t [THEN conjunct1, THEN mp, OF h1] t [THEN conjunct2, THEN mp, OF h2] h1 h2
  show ?thesis by blast
qed

section \<open>Open transactions of a property\<close>

text \<open>
  Claim C4, as stated, fails: a property can have two open transactions. Account 3
  requests parcel 1; its owner takes the parcel off sale, which \<open>removeFromSale\<close> allows
  in status SaleInProgress and which leaves the request Pending, and lists it again;
  account 4 requests it. All calls succeed, and transactions 1 and 2 both refer to
  parcel 1 and are Pending.
\<close>

theorem one_open_transaction_counterexample:
  "reachable (run scenario_second_request deployed_registry)
   \<and> steps scenario_second_request deployed_registry
       = Inr (run scenario_second_request deployed_registry)
   \<and> open_for (run scenario_second_request deployed_registry) 1 1
   \<and> open_for (run scenario_second_request deployed_registry) 1 2
   \<and> t_status (transactions (run scenario_second_request deployed_registry) 1) = TS_Pending
   \<and> t_buyer (transactions (run scenario_second_request deployed_registry) 1) = 3
   \<and> t_status (transactions (run scenario_second_request deployed_registry) 2) = TS_Pending
   \<and> t_buyer (transactions (run scenario_second_request deployed_registry) 2) = 4"
  by (simp add: reachable_run reachable_deployed_registry) (simp add: eval_defs open_for_def)

text \<open>
  Claim C4, amended. For every property, in every state reached by calls none of which is
  a \<open>removeFromSale\<close> of that property while its status is SaleInProgress (whatever is
  done to other properties), at most one transaction referring to the property is Pending
  or Approved, and the property then has status SaleInProgress; and in any state
  \<open>requestToPurchase\<close> reverts on a property whose status is not ListedForSale, so
  SaleInProgress blocks new requests.
\<close>

theorem one_open_transaction:
  "(reachable_keeping_sale p s \<and> open_for s p t1 \<and> open_for s p t2 \<longrightarrow> t1 = t2)
   \<and> (reachable_keeping_sale p s \<and> open_for s p t
        \<longrightarrow> p_status (properties s p) = PS_SaleInProgress)
   \<and> (p_status (properties r q) \<noteq> PS_ListedForSale
        \<longrightarrow> (\<exists>err. requestToPurchase e v q price ipfs r = Inl err))"
proof (intro conjI impI)
  assume "reachable_keeping_sale p s \<and> open_for s p t1 \<and> open_for s p t2"
  with reachable_keeping_sale_single_sale [of p s] show "t1 = t2"
    by (blast intro: single_sale_unique)
next
  assume "reachable_keeping_sale p s \<and> open_for s p t"
  with reachable_keeping_sale_single_sale [of p s]
  show "p_status (properties s p) = PS_SaleInProgress"
    by (blast intro: single_sale_status)
next
  assume "p_status (properties r q) \<noteq> PS_ListedForSale"
  then have "requestToPurchase_checks e v q price r \<noteq> None"
    by (simp add: checks_None)
  then show "\<exists>err. requestToPurchase e v q price ipfs r = Inl err"
    by (auto simp: requestToPurchase_def)
qed

theorem one_open_transaction_witness:
  "reachable_keeping_sale 2 (run scenario_two_parcels deployed_registry)
   \<and> steps scenario_two_parcels deployed_registry
       = Inr (run scenario_two_parcels deployed_registry)
   \<and> open_for (run scenario_two_parcels deployed_registry) 1 1
   \<and> p_status (properties (run scenario_two_parcels deployed_registry) 1) = PS_Approved
   \<and> open_for (run scenario_two_parcels deployed_registry) 2 2
   \<and> p_status (properties (run scenario_two_parcels deployed_registry) 2) = PS_SaleInProgress
   \<and> (\<exists>err. requestToPurchase (caller 5 55) 90 2 90 ''QmE''
               (run scenario_two_parcels deployed_registry) = Inl err)"
proof -
  have k: "keeps_sale 2 scenario_two_parcels deployed_registry"
    by (simp add: eval_defs)
  have r: "reachable_keeping_sale 2 (run scenario_two_parcels deployed_registry)"
    by (rule reachable_keeping_sale_run [OF reachable_keeping_sale_deployed_registry k])
  have a: "steps scenario_two_parcels deployed_registry
       = Inr (run scenario_two_parcels deployed_registry)"
    by (simp add: eval_defs)
  have o: "open_for (run scenario_two_parcels deployed_registry) 2 2"
    "open_for (run scenario_two_parcels deployed_registry) 1 1"
    "p_status (properties (run scenario_two_parcels deployed_registry) 1) = PS_Approved"
    by (simp_all add: eval_defs open_for_def)
  note t = one_open_transaction [where s = "run scenario_two_parcels deployed_registry"
      and p = 2 and ?t1.0 = 2 and ?t2.0 = 2 and t = 2
      and r = "run scenario_two_parcels deployed_registry" and q = 2
      and e = "caller 5 55" and v = 90 and price = 90 and ipfs = "''QmE''"]
  from t r a o show ?thesis by simp
qed

section \<open>Who may approve a registration\<close>

text \<open>
  Claim C5 says that a caller holding the Approver (Government) capability can approve a
  pending, active property. The code admits only \<open>SUPERADMIN_ROLE\<close>: account 5, which
  the deployer registered with \<open>GOVERNMENT_ROLE\<close>, is turned away with
  \<open>AccessControlUnauthorizedAccount\<close> on a property that exists, is active and is
  pending, whether it approves or rejects.
\<close>

theorem government_cannot_approve:
  "hasRole GOVERNMENT_ROLE 5 (run scenario_government deployed_registry)
   \<and> \<not> hasRole SUPERADMIN_ROLE 5 (run scenario_government deployed_registry)
   \<and> p_id (properties (run scenario_government deployed_registry) 1) = 1
   \<and> p_isActive (properties (run scenario_government deployed_registry) 1)
   \<and> p_status (properties (run scenario_government deployed_registry) 1) = PS_Pending
   \<and> approveProperty (caller 5 20) 1 True (run scenario_government deployed_registry)
       = Inl AccessControlUnauthorizedAccount
   \<and> approveProperty (caller 5 20) 1 False (run scenario_government deployed_registry)
       = Inl AccessControlUnauthorizedAccount"
  by (simp add: eval_defs)

section \<open>The completion time of a transaction\<close>

text \<open>
  Claim C6, as stated, fails: an Approved transaction has a completion time. After the
  seller approved the request at time 50, transaction 1 is Approved and its completion
  time is 50.
\<close>

theorem completedAt_counterexample:
  "reachable (run scenario_approved deployed_registry)
   \<and> steps scenario_approved deployed_registry = Inr (run scenario_approved deployed_registry)
   \<and> t_status (transactions (run scenario_approved deployed_registry) 1) = TS_Approved
   \<and> t_completedAt (transactions (run scenario_approved deployed_registry) 1) = 50"
  by (simp add: reachable_run reachable_deployed_registry) (simp add: eval_defs)

text \<open>
  Claim C6, amended. In every reachable state a transaction that is Pending has completion
  time zero. \<open>processPurchaseRequest\<close> sets the completion time to the block timestamp
  when it approves as well as when it rejects, and \<open>completePurchase\<close> sets it again,
  to the block timestamp of the completion.
\<close>

theorem completedAt_stamps:
  "(reachable s \<and> t_status (transactions s tid) = TS_Pending
      \<longrightarrow> t_completedAt (transactions s tid) = 0)
   \<and> (processPurchaseRequest e1 tid1 a s1 = Inr s1'
      \<longrightarrow> t_completedAt (transactions s1' tid1) = block_timestamp e1
        \<and> t_status (transactions s1' tid1) = (if a then TS_Approved else TS_Rejected))
   \<and> (completePurchase e2 tid2 s2 = Inr s2'
      \<longrightarrow> t_completedAt (transactions s2' tid2) = block_timestamp e2
        \<and> t_status (transactions s2' tid2) = TS_Completed)"
proof (intro conjI impI)
  assume "reachable s \<and> t_status (transactions s tid) = TS_Pending"
  with reachable_pending_unstamped [of s] show "t_completedAt (transactions s tid) = 0"
    by (simp add: pending_unstamped_def)
next
  assume ok: "processPurchaseRequest e1 tid1 a s1 = Inr s1'"
  show "t_completedAt (transactions s1' tid1) = block_timestamp e1"
  proof (cases a)
    case True
    with ok show ?thesis by (simp add: processPurchaseRequest_approve_Inr)
  next
    case False
    with ok obtain sm where
      "processPurchaseRequest_refund e1 tid1
         (processPurchaseRequest_reject tid1 (s1\<lparr>entered := True\<rparr>)) = Some sm"
      and "s1' = (processPurchaseRequest_stamp e1 tid1
              (emit (PurchaseRejected tid1 (t_propertyId (transactions sm tid1))
                       (t_buyer (transactions sm tid1))) sm))\<lparr>entered := False\<rparr>"
      by (auto simp: processPurchaseRequest_reject_Inr)
    then show ?thesis by simp
  qed
  show "t_status (transactions s1' tid1) = (if a then TS_Approved else TS_Rejected)"
  proof (cases a)
    case True
    with ok show ?thesis by (simp add: processPurchaseRequest_approve_Inr)
  next
    case False
    with ok obtain sm where
      sm: "processPurchaseRequest_refund e1 tid1
         (processPurchaseRequest_reject tid1 (s1\<lparr>entered := True\<rparr>)) = Some sm"
      and "s1' = (processPurchaseRequest_stamp e1 tid1
              (emit (PurchaseRejected tid1 (t_propertyId (transactions sm tid1))
                       (t_buyer (transactions sm tid1))) sm))\<lparr>entered := False\<rparr>"
      by (auto simp: processPurchaseRequest_reject_Inr)
    with False refund_Some [OF sm] show ?thesis by simp
  qed
next
  assume ok: "completePurchase e2 tid2 s2 = Inr s2'"
  then obtain sm where
    "s2' = (completePurchase_finish e2 tid2
              (p_owner (properties s2 (t_propertyId (transactions s2 tid2)))) sm)
            \<lparr>entered := False\<rparr>"
    by (auto simp: completePurchase_Inr)
  then show "t_completedAt (transactions s2' tid2) = block_timestamp e2"
    and "t_status (transactions s2' tid2) = TS_Completed"
    by simp_all
qed

theorem completedAt_stamps_witness:
  "reachable (run scenario_requested deployed_registry)
   \<and> t_status (transactions (run scenario_requested deployed_registry) 1) = TS_Pending
   \<and> t_completedAt (transactions (run scenario_requested deployed_registry) 1) = 0
   \<and> processPurchaseRequest (caller 2 50) 1 True (run scenario_requested deployed_registry)
       = Inr (run scenario_approved deployed_registry)
   \<and> t_completedAt (transactions (run scenario_approved deployed_registry) 1)
       = block_timestamp (caller 2 50)
   \<and> t_status (transactions (run scenario_approved deployed_registry) 1) = TS_Approved
   \<and> completePurchase (caller 3 60) 1 (run scenario_approved deployed_registry)
       = Inr (run scenario_completed deployed_registry)
   \<and> t_completedAt (transactions (run scenario_completed deployed_registry) 1)
       = block_timestamp (caller 3 60)
   \<and> t_status (transactions (run scenario_completed deployed_registry) 1) = TS_Completed"
proof -
  have r: "reachable (run scenario_requested deployed_registry)"
    by (simp add: reachable_run reachable_deployed_registry)
  have p: "t_status (transactions (run scenario_requested deployed_registry) 1) = TS_Pending"
    by (simp add: eval_defs)
  have h1: "processPurchaseRequest (caller 2 50) 1 True (run scenario_requested deployed_registry)
       = Inr (run scenario_approved deployed_registry)"
    by (simp add: eval_defs)
  have h2: "completePurchase (caller 3 60) 1 (run scenario_approved deployed_registry)
       = Inr (run scenario_completed deployed_registry)"
    by (simp add: eval_defs)
  note t = completedAt_stamps [where s = "run scenario_requested deployed_registry" and tid = 1
      and ?e1.0 = "caller 2 50" and ?tid1.0 = 1 and a = True
      and ?s1.0 = "run scenario_requested deployed_registry"
      and ?s1' = "run scenario_approved deployed_registry"
      and ?e2.0 = "caller 3 60" and ?tid2.0 = 1
      and ?s2.0 = "run scenario_approved deployed_registry"
      and ?s2' = "run scenario_completed deployed_registry"]
  from t r p h1 h2 show ?thesis by simp
qed

section \<open>A sale from registration to completion\<close>

text \<open>
  Claim C7. Starting from the freshly deployed registry, registering a property with
  market value 100, the deployer approving it, the owner listing it at 150, a buyer other
  than the owner requesting it at 150 with 150 sent along, the owner approving the request
  and the buyer completing the purchase all succeed, and afterwards the buyer owns the
  property, its market value is 150, its status is Approved, and the transaction is
  Completed.
\<close>

theorem scenario_A:
  assumes "st \<noteq> []" "di \<noteq> []" "vi \<noteq> []" "su \<noteq> []" "owner \<noteq> 0" "buyer \<noteq> owner"
    and "msg_sender e2 = msg_sender e0" "msg_sender e3 = owner" "msg_sender e4 = buyer"
    and "msg_sender e5 = owner" "msg_sender e6 = buyer" "owner \<notin> refusing e6"
  shows "steps (sale_calls e1 e2 e3 e4 e5 e6 st di vi su owner ipfs ipfs') (constructor e0)
           = Inr (run (sale_calls e1 e2 e3 e4 e5 e6 st di vi su owner ipfs ipfs') (constructor e0))
   \<and> p_owner (properties (run (sale_calls e1 e2 e3 e4 e5 e6 st di vi su owner ipfs ipfs') (constructor e0)) 1) = buyer
   \<and> p_marketValue (properties (run (sale_calls e1 e2 e3 e4 e5 e6 st di vi su owner ipfs ipfs') (constructor e0)) 1) = 150
   \<and> p_status (properties (run (sale_calls e1 e2 e3 e4 e5 e6 st di vi su owner ipfs ipfs') (constructor e0)) 1) = PS_Approved
   \<and> t_status (transactions (run (sale_calls e1 e2 e3 e4 e5 e6 st di vi su owner ipfs ipfs') (constructor e0)) 1) = TS_Completed"
  using assms by (simp add: sale_calls_def sym_defs)

theorem scenario_A_witness:
  "steps scenario_completed deployed_registry = Inr (run scenario_completed deployed_registry)
   \<and> p_owner (properties (run scenario_completed deployed_registry) 1) = 3
   \<and> p_marketValue (properties (run scenario_completed deployed_registry) 1) = 150
   \<and> p_status (properties (run scenario_completed deployed_registry) 1) = PS_Approved
   \<and> t_status (transactions (run scenario_completed deployed_registry) 1) = TS_Completed"
proof -
  have calls: "scenario_completed = sale_calls (caller 2 10) (caller 1 20) (caller 2 30)
      (caller 3 40) (caller 2 50) (caller 3 60) ''Goa'' ''North'' ''Assagao'' ''SUR-001'' 2
      ''QmA'' ''QmB''"
    by (simp add: scenario_defs sale_calls_def)
  show ?thesis
    unfolding calls deployed_registry_def
    by (rule scenario_A) (simp_all add: caller_def)
qed


section \<open>The owner lists after a sale\<close>

text \<open>
  Claim C8, as stated, fails when the buyer already owns the property at completion.
  Account 3 holds two approved transactions on parcel 1 (the owner took the parcel off
  sale and listed it again in between) and completes the first, which makes it the owner.
  When it completes the second, the old owner is account 3 itself, and its list holds
  parcel 1 afterwards.
\<close>

theorem owner_index_after_sale_counterexample:
  "reachable (run scenario_bought_twice deployed_registry)
   \<and> steps scenario_bought_twice deployed_registry
       = Inr (run scenario_bought_twice deployed_registry)
   \<and> p_owner (properties (run scenario_bought_twice deployed_registry) 1) = 3
   \<and> t_propertyId (transactions (run scenario_bought_twice deployed_registry) 2) = 1
   \<and> t_buyer (transactions (run scenario_bought_twice deployed_registry) 2) = 3
   \<and> completePurchase (caller 3 62) 2 (run scenario_bought_twice deployed_registry)
       = Inr (apply_call (caller 3 62, CompletePurchase 2)
               (run scenario_bought_twice deployed_registry))
   \<and> getOwnerProperties 3 (apply_call (caller 3 62, CompletePurchase 2)
         (run scenario_bought_twice deployed_registry)) = [1]"
  by (simp add: reachable_run reachable_deployed_registry)
     (simp add: eval_defs getOwnerProperties_def)

text \<open>
  Claim C8, amended. After every successful \<open>completePurchase\<close> in a reachable state,
  \<open>getOwnerProperties\<close> of the buyer contains the sold property id, and, when the
  property's owner at that moment was not the buyer, \<open>getOwnerProperties\<close> of that old
  owner no longer contains it.
\<close>

theorem owner_index_after_sale:
  assumes "reachable s" and "completePurchase e tid s = Inr s'"
  shows "t_propertyId (transactions s tid)
           \<in> set (getOwnerProperties (t_buyer (transactions s tid)) s')
     \<and> (p_owner (properties s (t_propertyId (transactions s tid))) \<noteq> t_buyer (transactions s tid)
        \<longrightarrow> t_propertyId (transactions s tid)
              \<notin> set (getOwnerProperties
                        (p_owner (properties s (t_propertyId (transactions s tid)))) s'))"
proof -
  from assms(2) obtain sm where
    pay: "completePurchase_payment e tid
            (completePurchase_transfer e tid (s\<lparr>entered := True\<rparr>)) = Some sm"
    and s': "s' = (completePurchase_finish e tid
              (p_owner (properties s (t_propertyId (transactions s tid)))) sm)
            \<lparr>entered := False\<rparr>"
    by (auto simp: completePurchase_Inr)
  from reachable_index_exact [OF assms(1)]
  have d: "distinct (ownerProperties s (p_owner (properties s (t_propertyId (transactions s tid)))))"
    by (simp add: index_exact_def)
  from s' payment_Some [OF pay] remove_owned_distinct [OF d, of "t_propertyId (transactions s tid)"]
  show ?thesis
    by (simp add: getOwnerProperties_def completePurchase_transfer_ownerProperties Let_def)
qed

theorem owner_index_after_sale_witness:
  "reachable (run scenario_approved deployed_registry)
   \<and> completePurchase (caller 3 60) 1 (run scenario_approved deployed_registry)
       = Inr (run scenario_completed deployed_registry)
   \<and> t_propertyId (transactions (run scenario_approved deployed_registry) 1) = 1
   \<and> t_buyer (transactions (run scenario_approved deployed_registry) 1) = 3
   \<and> p_owner (properties (run scenario_approved deployed_registry) 1) = 2
   \<and> 1 \<in> set (getOwnerProperties 3 (run scenario_completed deployed_registry))
   \<and> 1 \<notin> set (getOwnerProperties 2 (run scenario_completed deployed_registry))"
proof -
  let ?s = "run scenario_approved deployed_registry"
  have r: "reachable ?s"
    by (simp add: reachable_run reachable_deployed_registry)
  have h: "completePurchase (caller 3 60) 1 ?s = Inr (run scenario_completed deployed_registry)"
    by (simp add: eval_defs)
  have k: "t_propertyId (transactions ?s 1) = 1" "t_buyer (transactions ?s 1) = 3"
    "p_owner (properties ?s 1) = 2"
    by (simp_all add: eval_defs)
  from owner_index_after_sale [OF r h] r h k show ?thesis by simp
qed

section \<open>Withdrawing a parcel from sale twice\<close>

text \<open>
  Claim C9. For every active property whose status is ListedForSale or SaleInProgress, a
  first call of \<open>removeFromSale\<close> by its owner succeeds and sets the status to Approved,
  and a second call by the same owner right after it reverts with "Property is not for
  sale" (the InvalidState case), which leaves the state as the first call made it.
\<close>

theorem removeFromSale_twice:
  assumes "p_id (properties s pid) \<noteq> 0"
    and "p_isActive (properties s pid)"
    and "p_status (properties s pid) = PS_ListedForSale
         \<or> p_status (properties s pid) = PS_SaleInProgress"
    and "msg_sender e = p_owner (properties s pid)"
    and "msg_sender e' = msg_sender e"
  shows "removeFromSale e pid s = Inr (removeFromSale_effects e pid s)
         \<and> p_status (properties (removeFromSale_effects e pid s) pid) = PS_Approved
         \<and> removeFromSale e' pid (removeFromSale_effects e pid s) = Inl Property_is_not_for_sale
         \<and> apply_call (e', RemoveFromSale pid) (removeFromSale_effects e pid s)
             = removeFromSale_effects e pid s"
  using assms
  by (auto simp: removeFromSale_def removeFromSale_checks_def removeFromSale_effects_def
      check_defs apply_call_def)

theorem removeFromSale_twice_witness:
  "p_id (properties (run scenario_listed deployed_registry) 1) \<noteq> 0
   \<and> p_isActive (properties (run scenario_listed deployed_registry) 1)
   \<and> p_status (properties (run scenario_listed deployed_registry) 1) = PS_ListedForSale
   \<and> msg_sender (caller 2 40) = p_owner (properties (run scenario_listed deployed_registry) 1)
   \<and> removeFromSale (caller 2 40) 1 (run scenario_listed deployed_registry)
       = Inr (removeFromSale_effects (caller 2 40) 1 (run scenario_listed deployed_registry))
   \<and> removeFromSale (caller 2 41) 1
         (removeFromSale_effects (caller 2 40) 1 (run scenario_listed deployed_registry))
       = Inl Property_is_not_for_sale"
proof -
  let ?s = "run scenario_listed deployed_registry"
  have h1: "p_id (properties ?s 1) \<noteq> 0" by (simp add: eval_defs)
  have h2: "p_isActive (properties ?s 1)" by (simp add: eval_defs)
  have h3: "p_status (properties ?s 1) = PS_ListedForSale" by (simp add: eval_defs)
  have h4: "msg_sender (caller 2 40) = p_owner (properties ?s 1)" by (simp add: eval_defs)
  have h5: "msg_sender (caller 2 41) = msg_sender (caller 2 40)" by (simp add: caller_def)
  from removeFromSale_twice [OF h1 h2 disjI1 [OF h3] h4 h5] h1 h2 h3 h4
  show ?thesis by blast
qed

section \<open>Completion does not look at the property\<close>

text \<open>
  Claim C10, as stated, fails: the checks it lists are not all that \<open>completePurchase\<close>
  requires, and the buyer of an Approved transaction cannot always complete. The call
  also requires the payment to the seller to succeed (line 438). In the reachable,
  unpaused registry where transaction 1 is Approved, its buyer, account 3, calls
  \<open>completePurchase\<close> while the seller, account 2, refuses the payment: the call reverts
  with "Payment transfer failed" and account 2 still owns the parcel.
\<close>

theorem completePurchase_ignores_property_counterexample:
  "reachable (run scenario_approved deployed_registry)
   \<and> \<not> paused (run scenario_approved deployed_registry)
   \<and> t_id (transactions (run scenario_approved deployed_registry) 1) = 1
   \<and> t_status (transactions (run scenario_approved deployed_registry) 1) = TS_Approved
   \<and> t_buyer (transactions (run scenario_approved deployed_registry) 1)
       = msg_sender buyer_refused
   \<and> t_seller (transactions (run scenario_approved deployed_registry) 1) = 2
   \<and> refusing buyer_refused = {2}
   \<and> completePurchase buyer_refused 1 (run scenario_approved deployed_registry)
       = Inl Payment_transfer_failed
   \<and> p_owner (properties (apply_call (buyer_refused, CompletePurchase 1)
         (run scenario_approved deployed_registry)) 1) = 2
   \<and> t_status (transactions (apply_call (buyer_refused, CompletePurchase 1)
         (run scenario_approved deployed_registry)) 1) = TS_Approved"
  by (simp add: reachable_run reachable_deployed_registry) (simp add: eval_defs)

text \<open>
  Claim C10, amended. \<open>completePurchase\<close> checks the pause flag, the latch, that the
  transaction exists, that it is Approved and that the caller is its buyer, and it
  requires the payment of the price to the seller to succeed; it checks nothing of the
  property the transaction refers to: with any other table of properties the checks give
  the same answer. So in every reachable state that is not paused, the buyer of every
  Approved transaction whose seller accepts the payment completes the transfer and becomes
  the owner, whatever the status or active flag of the property (also after the owner
  took it off sale); the contract always holds the price.
\<close>

theorem completePurchase_ignores_property:
  assumes "reachable s" and "\<not> paused s"
    and "t_id (transactions s tid) \<noteq> 0"
    and "t_status (transactions s tid) = TS_Approved"
    and "t_buyer (transactions s tid) = msg_sender e"
    and "t_seller (transactions s tid) \<notin> refusing e"
  shows "completePurchase e tid s = Inr (apply_call (e, CompletePurchase tid) s)
     \<and> p_owner (properties (apply_call (e, CompletePurchase tid) s)
          (t_propertyId (transactions s tid))) = t_buyer (transactions s tid)
     \<and> t_status (transactions (apply_call (e, CompletePurchase tid) s) tid) = TS_Completed
     \<and> completePurchase_checks e tid (s\<lparr>properties := ps\<rparr>) = completePurchase_checks e tid s"
proof -
  from reachable_funded [OF assms(1)] have latch: "\<not> entered s"
    by (simp add: funded_def)
  from reachable_open_price_held [OF assms(1,3)] assms(4)
  have held: "t_price (transactions s tid) \<le> balance s" by simp
  from assms(2-6) latch held show ?thesis
    by (simp add: completePurchase_def completePurchase_checks_def completePurchase_transfer_def
        completePurchase_payment_def completePurchase_finish_def call_value_def check_defs
        apply_call_def Let_def)
qed

theorem completePurchase_ignores_property_witness:
  "reachable (run scenario_withdrawn deployed_registry)
   \<and> p_status (properties (run scenario_withdrawn deployed_registry) 1) = PS_Approved
   \<and> p_owner (properties (run scenario_withdrawn deployed_registry) 1) = 2
   \<and> completePurchase (caller 3 60) 1 (run scenario_withdrawn deployed_registry)
       = Inr (apply_call (caller 3 60, CompletePurchase 1) (run scenario_withdrawn deployed_registry))
   \<and> p_owner (properties (apply_call (caller 3 60, CompletePurchase 1)
         (run scenario_withdrawn deployed_registry))
          (t_propertyId (transactions (run scenario_withdrawn deployed_registry) 1)))
       = t_buyer (transactions (run scenario_withdrawn deployed_registry) 1)
   \<and> t_propertyId (transactions (run scenario_withdrawn deployed_registry) 1) = 1
   \<and> t_buyer (transactions (run scenario_withdrawn deployed_registry) 1) = 3"
proof -
  let ?s = "run scenario_withdrawn deployed_registry"
  have h1: "reachable ?s" by (simp add: reachable_run reachable_deployed_registry)
  have h2: "\<not> paused ?s" by (simp add: eval_defs)
  have h3: "t_id (transactions ?s 1) \<noteq> 0" by (simp add: eval_defs)
  have h4: "t_status (transactions ?s 1) = TS_Approved" by (simp add: eval_defs)
  have h5: "t_buyer (transactions ?s 1) = msg_sender (caller 3 60)" by (simp add: eval_defs)
  have h6: "t_seller (transactions ?s 1) \<notin> refusing (caller 3 60)" by (simp add: eval_defs)
  have k1: "p_status (properties ?s 1) = PS_Approved" by (simp add: eval_defs)
  have k2: "p_owner (properties ?s 1) = 2" by (simp add: eval_defs)
  have k3: "t_propertyId (transactions ?s 1) = 1" by (simp add: eval_defs)
  have k4: "t_buyer (transactions ?s 1) = 3" by (simp add: eval_defs)
  from completePurchase_ignores_property [OF h1 h2 h3 h4 h5 h6] h1 k1 k2 k3 k4
  show ?thesis by blast
qed

end
